theory Spec2Isabelle
  imports Complex_Main
begin

section \<open>SceneManager: texture registry, material catalog, transforms, shader uniforms\<close>

text \<open>
  A shallow embedding of \<^verbatim>\<open>Source/SceneManager.cpp\<close>. The member functions
  become functions on an explicit \<open>SceneManager\<close> record (and, where they call OpenGL, on
  a small record of the OpenGL texture state). C++ \<^verbatim>\<open>float\<close> values are idealised
  as exact reals, which covers finite values without rounding. The transform composer is
  given a second time over floats extended with the infinities and NaN, to state what it
  does on non-finite inputs.
  Two kinds of undefined behaviour of the C++ are made explicit as values of type
  \<open>fault\<close>: a store past the end of the fixed texture array, and a call through a null
  \<^verbatim>\<open>ShaderManager\<close> pointer.
\<close>

subsection \<open>GLM vectors and matrices\<close>

datatype vec2 = Vec2 real real
datatype vec3 = Vec3 real real real
datatype vec4 = Vec4 real real real real

text \<open>A \<^verbatim>\<open>glm::mat4\<close> is column-major: four columns, each a \<open>vec4\<close>.\<close>

datatype mat4 = Mat4 vec4 vec4 vec4 vec4

fun vec4_scale :: "vec4 \<Rightarrow> real \<Rightarrow> vec4" where
  "vec4_scale (Vec4 x y z w) k = Vec4 (x * k) (y * k) (z * k) (w * k)"

fun vec4_add :: "vec4 \<Rightarrow> vec4 \<Rightarrow> vec4" where
  "vec4_add (Vec4 x y z w) (Vec4 x' y' z' w') = Vec4 (x + x') (y + y') (z + z') (w + w')"

text \<open>\<^verbatim>\<open>mat4 * vec4\<close>: the linear combination of the columns.\<close>

fun mat4_mul_vec4 :: "mat4 \<Rightarrow> vec4 \<Rightarrow> vec4" where
  "mat4_mul_vec4 (Mat4 c0 c1 c2 c3) (Vec4 x y z w) =
     vec4_add (vec4_add (vec4_add (vec4_scale c0 x) (vec4_scale c1 y)) (vec4_scale c2 z))
       (vec4_scale c3 w)"

text \<open>\<^verbatim>\<open>mat4 * mat4\<close>: column \<open>j\<close> of the product is the left matrix applied to
  column \<open>j\<close> of the right one.\<close>

fun mat4_mul :: "mat4 \<Rightarrow> mat4 \<Rightarrow> mat4" where
  "mat4_mul a (Mat4 b0 b1 b2 b3) =
     Mat4 (mat4_mul_vec4 a b0) (mat4_mul_vec4 a b1) (mat4_mul_vec4 a b2) (mat4_mul_vec4 a b3)"

definition mat4_identity :: mat4 where
  "mat4_identity = Mat4 (Vec4 1 0 0 0) (Vec4 0 1 0 0) (Vec4 0 0 1 0) (Vec4 0 0 0 1)"


text \<open>\<^verbatim>\<open>glm::radians\<close>: degrees to radians.\<close>

definition radians :: "real \<Rightarrow> real" where
  "radians degrees = degrees * (pi / 180)"

text \<open>\<^verbatim>\<open>glm::scale(v)\<close> of \<^verbatim>\<open>glm/gtx/transform.hpp\<close>: the identity with its first
  three columns scaled.\<close>

fun glm_scale :: "vec3 \<Rightarrow> mat4" where
  "glm_scale (Vec3 sx sy sz) =
     Mat4 (vec4_scale (Vec4 1 0 0 0) sx) (vec4_scale (Vec4 0 1 0 0) sy)
          (vec4_scale (Vec4 0 0 1 0) sz) (Vec4 0 0 0 1)"

text \<open>\<^verbatim>\<open>glm::translate(v)\<close>: the identity with its last column replaced by
  \<open>m[0] * v.x + m[1] * v.y + m[2] * v.z + m[3]\<close>.\<close>

fun glm_translate :: "vec3 \<Rightarrow> mat4" where
  "glm_translate (Vec3 tx ty tz) =
     Mat4 (Vec4 1 0 0 0) (Vec4 0 1 0 0) (Vec4 0 0 1 0)
       (vec4_add (vec4_add (vec4_add (vec4_scale (Vec4 1 0 0 0) tx) (vec4_scale (Vec4 0 1 0 0) ty))
          (vec4_scale (Vec4 0 0 1 0) tz)) (Vec4 0 0 0 1))"

text \<open>\<^verbatim>\<open>glm::normalize\<close>: \<open>v * inversesqrt(dot(v, v))\<close>.\<close>

fun glm_normalize :: "vec3 \<Rightarrow> vec3" where
  "glm_normalize (Vec3 x y z) =
     (let k = 1 / sqrt (x * x + y * y + z * z) in Vec3 (x * k) (y * k) (z * k))"

text \<open>\<^verbatim>\<open>glm::rotate(angle, axis)\<close>: the axis-angle matrix GLM builds from the
  normalised axis, applied to the identity.\<close>

fun glm_rotate :: "real \<Rightarrow> vec3 \<Rightarrow> mat4" where
  "glm_rotate a v =
     (case glm_normalize v of Vec3 ax ay az \<Rightarrow>
        (let c = cos a; s = sin a;
             t0 = (1 - c) * ax; t1 = (1 - c) * ay; t2 = (1 - c) * az;
             r00 = c + t0 * ax;      r01 = t0 * ay + s * az; r02 = t0 * az - s * ay;
             r10 = t1 * ax - s * az; r11 = c + t1 * ay;      r12 = t1 * az + s * ax;
             r20 = t2 * ax + s * ay; r21 = t2 * ay - s * ax; r22 = c + t2 * az;
             m0 = Vec4 1 0 0 0; m1 = Vec4 0 1 0 0; m2 = Vec4 0 0 1 0; m3 = Vec4 0 0 0 1
         in Mat4
              (vec4_add (vec4_add (vec4_scale m0 r00) (vec4_scale m1 r01)) (vec4_scale m2 r02))
              (vec4_add (vec4_add (vec4_scale m0 r10) (vec4_scale m1 r11)) (vec4_scale m2 r12))
              (vec4_add (vec4_add (vec4_scale m0 r20) (vec4_scale m1 r21)) (vec4_scale m2 r22))
              m3))"

subsection \<open>The shader-parameter sink\<close>

text \<open>
  \<^verbatim>\<open>ShaderManager\<close> is not among the sources. Each of its setters is one named uniform
  write; the sink is represented by the sequence of writes it has received, oldest first.
\<close>

datatype uniform_write =
    IntValue string int
  | BoolValue string bool
  | FloatValue string real
  | Vec2Value string vec2
  | Vec3Value string vec3
  | Vec4Value string vec4
  | Mat4Value string mat4
  | Sampler2DValue string int

type_synonym ShaderManager = "uniform_write list"

text \<open>Modelled from the spec: \<^verbatim>\<open>ShaderManager::setIntValue\<close> is missing from the
  sources; it "accepts named uniform writes", "each write is immediate".\<close>
definition setIntValue :: "string \<Rightarrow> int \<Rightarrow> ShaderManager \<Rightarrow> ShaderManager" where
  "setIntValue name v sm = sm @ [IntValue name v]"

text \<open>Modelled from the spec: \<^verbatim>\<open>ShaderManager::setFloatValue\<close> is missing from the
  sources; one immediate named write.\<close>
definition setFloatValue :: "string \<Rightarrow> real \<Rightarrow> ShaderManager \<Rightarrow> ShaderManager" where
  "setFloatValue name v sm = sm @ [FloatValue name v]"

text \<open>Modelled from the spec: \<^verbatim>\<open>ShaderManager::setVec2Value\<close> is missing from the
  sources; one immediate named write.\<close>
definition setVec2Value :: "string \<Rightarrow> vec2 \<Rightarrow> ShaderManager \<Rightarrow> ShaderManager" where
  "setVec2Value name v sm = sm @ [Vec2Value name v]"

text \<open>Modelled from the spec: \<^verbatim>\<open>ShaderManager::setVec3Value\<close> is missing from the
  sources; one immediate named write.\<close>
definition setVec3Value :: "string \<Rightarrow> vec3 \<Rightarrow> ShaderManager \<Rightarrow> ShaderManager" where
  "setVec3Value name v sm = sm @ [Vec3Value name v]"

text \<open>Modelled from the spec: \<^verbatim>\<open>ShaderManager::setVec4Value\<close> is missing from the
  sources; one immediate named write.\<close>
definition setVec4Value :: "string \<Rightarrow> vec4 \<Rightarrow> ShaderManager \<Rightarrow> ShaderManager" where
  "setVec4Value name v sm = sm @ [Vec4Value name v]"

text \<open>Modelled from the spec: \<^verbatim>\<open>ShaderManager::setMat4Value\<close> is missing from the
  sources; one immediate named write.\<close>
definition setMat4Value :: "string \<Rightarrow> mat4 \<Rightarrow> ShaderManager \<Rightarrow> ShaderManager" where
  "setMat4Value name v sm = sm @ [Mat4Value name v]"

text \<open>Modelled from the spec: \<^verbatim>\<open>ShaderManager::setSampler2DValue\<close> is missing from the
  sources; one immediate named write of a texture slot.\<close>
definition setSampler2DValue :: "string \<Rightarrow> int \<Rightarrow> ShaderManager \<Rightarrow> ShaderManager" where
  "setSampler2DValue name v sm = sm @ [Sampler2DValue name v]"

text \<open>Modelled from the spec: \<^verbatim>\<open>ShaderManager::setBoolValue\<close> is missing from the
  sources; one immediate named write.\<close>
definition setBoolValue :: "string \<Rightarrow> bool \<Rightarrow> ShaderManager \<Rightarrow> ShaderManager" where
  "setBoolValue name v sm = sm @ [BoolValue name v]"

text \<open>The uniform names of the anonymous namespace.\<close>

definition g_ModelName :: string where "g_ModelName = ''model''"
definition g_ColorValueName :: string where "g_ColorValueName = ''objectColor''"
definition g_TextureValueName :: string where "g_TextureValueName = ''objectTexture''"
definition g_UseTextureName :: string where "g_UseTextureName = ''bUseTexture''"
definition g_UseLightingName :: string where "g_UseLightingName = ''bUseLighting''"

text \<open>The value of an \<^verbatim>\<open>int\<close> uniform as the shader sees it: the last write under
  that name, if any.\<close>

fun int_write :: "string \<Rightarrow> uniform_write \<Rightarrow> int option \<Rightarrow> int option" where
  "int_write name (IntValue n v) acc = (if n = name then Some v else acc)"
| "int_write name _ acc = acc"

definition int_uniform :: "string \<Rightarrow> ShaderManager \<Rightarrow> int option" where
  "int_uniform name sm = fold (int_write name) sm None"

subsection \<open>Program state\<close>

text \<open>The structs of \<^verbatim>\<open>SceneManager.h\<close>, with the fields this file uses. Both structs
  have a field \<^verbatim>\<open>tag\<close>; the record fields carry a prefix to keep them apart.\<close>

record TEXTURE_INFO =
  ID :: nat
  tex_tag :: string

record OBJECT_MATERIAL =
  diffuseColor :: vec3
  specularColor :: vec3
  shininess :: real
  mat_tag :: string

text \<open>
  \<open>m_pShaderManager\<close> is a pointer: \<open>None\<close> is \<^verbatim>\<open>NULL\<close>. \<open>m_textureIDs\<close> is the fixed
  array of the header; its length is the number of slots the header declares.
  \<open>m_loadedTextures\<close> counts the slots in use.
\<close>

record SceneManager =
  m_pShaderManager :: "ShaderManager option"
  m_textureIDs :: "TEXTURE_INFO list"
  m_loadedTextures :: nat
  m_objectMaterials :: "OBJECT_MATERIAL list"

datatype fault = OutOfBounds | NullDereference

text \<open>Every loop below reads \<open>m_textureIDs\<close> at indices below \<open>m_loadedTextures\<close>; the
  reads are inside the array when the count does not exceed its length.\<close>

definition registry_ok :: "SceneManager \<Rightarrow> bool" where
  "registry_ok s = (m_loadedTextures s \<le> length (m_textureIDs s))"

subsection \<open>Material catalog\<close>

text \<open>
  The \<^verbatim>\<open>while\<close> loop of \<^verbatim>\<open>FindMaterial\<close>, with its variables \<open>index\<close>,
  \<open>bFound\<close> and the reference parameter \<open>material\<close> as arguments. A hit sets
  \<open>bFound\<close> and copies three fields; the next test of the loop condition then leaves.
\<close>

function FindMaterial_loop ::
  "OBJECT_MATERIAL list \<Rightarrow> string \<Rightarrow> nat \<Rightarrow> bool \<Rightarrow> OBJECT_MATERIAL \<Rightarrow> OBJECT_MATERIAL" where
  "FindMaterial_loop ms t index bFound material =
     (if index < length ms \<and> bFound = False then
        (if mat_tag (ms ! index) = t then
           FindMaterial_loop ms t index True
             (material\<lparr>diffuseColor := diffuseColor (ms ! index),
                       specularColor := specularColor (ms ! index),
                       shininess := shininess (ms ! index)\<rparr>)
         else FindMaterial_loop ms t (index + 1) bFound material)
      else material)"
  by pat_completeness auto
termination
  by (relation "measure (\<lambda>(ms, t, index, bFound, material).
        2 * (length ms - index) + (if bFound then 0 else 1))") auto

declare FindMaterial_loop.simps [simp del]

text \<open>\<^verbatim>\<open>FindMaterial\<close> returns its \<^verbatim>\<open>bool\<close> together with the final contents
  of the reference parameter. The value returned after the loop is the constant
  \<^verbatim>\<open>true\<close>.\<close>

definition FindMaterial ::
  "SceneManager \<Rightarrow> string \<Rightarrow> OBJECT_MATERIAL \<Rightarrow> bool \<times> OBJECT_MATERIAL" where
  "FindMaterial s t material =
     (if length (m_objectMaterials s) = 0 then (False, material)
      else (True, FindMaterial_loop (m_objectMaterials s) t 0 False material))"

text \<open>
  \<^verbatim>\<open>SetShaderMaterial\<close> declares its local \<^verbatim>\<open>OBJECT_MATERIAL material\<close> without
  an initialiser; the argument \<open>material\<close> stands for whatever that local holds when
  \<^verbatim>\<open>FindMaterial\<close> is called. The three setter calls go through \<open>m_pShaderManager\<close>
  with no null test.
\<close>

definition SetShaderMaterial ::
  "OBJECT_MATERIAL \<Rightarrow> string \<Rightarrow> SceneManager \<Rightarrow> fault + SceneManager" where
  "SetShaderMaterial material materialTag s =
     (if length (m_objectMaterials s) > 0 then
        (case FindMaterial s materialTag material of
           (bReturn, material') \<Rightarrow>
             if bReturn = True then
               (case m_pShaderManager s of
                  None \<Rightarrow> Inl NullDereference
                | Some sm \<Rightarrow>
                    Inr (s\<lparr>m_pShaderManager := Some
                      (setFloatValue ''material.shininess'' (shininess material')
                        (setVec3Value ''material.specularColor'' (specularColor material')
                          (setVec3Value ''material.diffuseColor'' (diffuseColor material') sm)))\<rparr>))
             else Inr s)
      else Inr s)"

subsection \<open>OpenGL texture state\<close>

text \<open>
  The part of the OpenGL context the texture calls touch: the texture names handed out
  and not deleted, the active texture unit, the \<^verbatim>\<open>GL_TEXTURE_2D\<close> binding of each unit
  (0 is "no texture"), and the level-0 image of each texture object. Wrap and filter
  parameters and mipmap levels are not represented.
\<close>

datatype gl_format = GL_RGB8 | GL_RGBA8

record stb_image =
  width :: int
  height :: int
  colorChannels :: int
  pixels :: "nat list"

record gl_state =
  gl_names :: "nat list"
  gl_active :: nat
  gl_bound :: "nat \<Rightarrow> nat"
  gl_image :: "nat \<Rightarrow> (gl_format \<times> stb_image) option"

text \<open>\<^verbatim>\<open>glGenTextures(1, &id)\<close> returns a name that is not in use and is not 0, and
  marks it used; the model picks the successor of the largest name in use.\<close>

definition gl_fresh :: "nat list \<Rightarrow> nat" where
  "gl_fresh names = Suc (fold max names 0)"

definition glGenTextures :: "gl_state \<Rightarrow> nat \<times> gl_state" where
  "glGenTextures g = (gl_fresh (gl_names g), g\<lparr>gl_names := gl_names g @ [gl_fresh (gl_names g)]\<rparr>)"

definition glActiveTexture :: "nat \<Rightarrow> gl_state \<Rightarrow> gl_state" where
  "glActiveTexture unit g = g\<lparr>gl_active := unit\<rparr>"

definition glBindTexture :: "nat \<Rightarrow> gl_state \<Rightarrow> gl_state" where
  "glBindTexture name g = g\<lparr>gl_bound := (gl_bound g)(gl_active g := name)\<rparr>"

definition glTexImage2D :: "gl_format \<Rightarrow> stb_image \<Rightarrow> gl_state \<Rightarrow> gl_state" where
  "glTexImage2D fmt img g =
     g\<lparr>gl_image := (gl_image g)(gl_bound g (gl_active g) := Some (fmt, img))\<rparr>"

subsection \<open>Texture registry\<close>

text \<open>
  The tail of \<^verbatim>\<open>CreateGLTexture\<close> after the upload: unbind, store the pair at index
  \<open>m_loadedTextures\<close>, count it, return \<^verbatim>\<open>true\<close>. The source makes the store with
  no test of the index against the array length.
\<close>

definition register_texture ::
  "nat \<Rightarrow> string \<Rightarrow> gl_state \<Rightarrow> SceneManager \<Rightarrow> fault + (bool \<times> gl_state \<times> SceneManager)" where
  "register_texture textureID t g s =
     (let g' = glBindTexture 0 g; n = m_loadedTextures s in
      if n < length (m_textureIDs s) then
        Inr (True, g',
             s\<lparr>m_textureIDs := (m_textureIDs s)[n := (m_textureIDs s ! n)\<lparr>ID := textureID, tex_tag := t\<rparr>],
               m_loadedTextures := n + 1\<rparr>)
      else Inl OutOfBounds)"

text \<open>
  \<^verbatim>\<open>CreateGLTexture\<close>. The image decoder \<^verbatim>\<open>stbi_load\<close> is a parameter: it maps a
  file name to the decoded image, or to \<open>None\<close> when the file cannot be read.
\<close>

definition CreateGLTexture ::
  "(string \<Rightarrow> stb_image option) \<Rightarrow> string \<Rightarrow> string \<Rightarrow> gl_state \<times> SceneManager
     \<Rightarrow> fault + (bool \<times> gl_state \<times> SceneManager)" where
  "CreateGLTexture stbi_load filename t gs =
     (case gs of (g, s) \<Rightarrow>
        (case stbi_load filename of
           Some img \<Rightarrow>
             (case glGenTextures g of
                (textureID, g1) \<Rightarrow>
                  (let g2 = glBindTexture textureID g1 in
                   if colorChannels img = 3 then
                     register_texture textureID t (glTexImage2D GL_RGB8 img g2) s
                   else if colorChannels img = 4 then
                     register_texture textureID t (glTexImage2D GL_RGBA8 img g2) s
                   else Inr (False, g2, s)))
         | None \<Rightarrow> Inr (False, g, s)))"

text \<open>\<^verbatim>\<open>BindGLTextures\<close>: the \<^verbatim>\<open>for\<close> loop, with \<open>i\<close> as argument.\<close>

function BindGLTextures_loop :: "SceneManager \<Rightarrow> nat \<Rightarrow> gl_state \<Rightarrow> gl_state" where
  "BindGLTextures_loop s i g =
     (if i < m_loadedTextures s then
        BindGLTextures_loop s (i + 1) (glBindTexture (ID (m_textureIDs s ! i)) (glActiveTexture i g))
      else g)"
  by pat_completeness auto
termination
  by (relation "measure (\<lambda>(s, i, g). m_loadedTextures s - i)") auto

declare BindGLTextures_loop.simps [simp del]

definition BindGLTextures :: "gl_state \<times> SceneManager \<Rightarrow> gl_state \<times> SceneManager" where
  "BindGLTextures gs = (case gs of (g, s) \<Rightarrow> (BindGLTextures_loop s 0 g, s))"

text \<open>\<^verbatim>\<open>DestroyGLTextures\<close>: the loop calls \<^verbatim>\<open>glGenTextures\<close> on the address of each
  registered entry's \<open>ID\<close>, which stores a newly generated name there.\<close>

function DestroyGLTextures_loop :: "nat \<Rightarrow> nat \<Rightarrow> gl_state \<times> TEXTURE_INFO list
    \<Rightarrow> gl_state \<times> TEXTURE_INFO list" where
  "DestroyGLTextures_loop n i gt =
     (case gt of (g, ts) \<Rightarrow>
        if i < n then
          (case glGenTextures g of
             (name, g') \<Rightarrow> DestroyGLTextures_loop n (i + 1) (g', ts[i := (ts ! i)\<lparr>ID := name\<rparr>]))
        else (g, ts))"
  by pat_completeness auto
termination
  by (relation "measure (\<lambda>(n, i, gt). n - i)") auto

declare DestroyGLTextures_loop.simps [simp del]

definition DestroyGLTextures :: "gl_state \<times> SceneManager \<Rightarrow> gl_state \<times> SceneManager" where
  "DestroyGLTextures gs =
     (case gs of (g, s) \<Rightarrow>
        (case DestroyGLTextures_loop (m_loadedTextures s) 0 (g, m_textureIDs s) of
           (g', ts) \<Rightarrow> (g', s\<lparr>m_textureIDs := ts\<rparr>)))"

text \<open>The conversion of a \<^verbatim>\<open>GLuint\<close> to \<^verbatim>\<open>int\<close> made by the assignment in
  \<^verbatim>\<open>FindTextureID\<close>.\<close>

definition int_of_GLuint :: "nat \<Rightarrow> int" where
  "int_of_GLuint n = (if n mod 2 ^ 32 < 2 ^ 31 then int (n mod 2 ^ 32) else int (n mod 2 ^ 32) - 2 ^ 32)"

function FindTextureID_loop ::
  "TEXTURE_INFO list \<Rightarrow> nat \<Rightarrow> string \<Rightarrow> int \<Rightarrow> nat \<Rightarrow> bool \<Rightarrow> int" where
  "FindTextureID_loop ts n t textureID index bFound =
     (if index < n \<and> bFound = False then
        (if tex_tag (ts ! index) = t then
           FindTextureID_loop ts n t (int_of_GLuint (ID (ts ! index))) index True
         else FindTextureID_loop ts n t textureID (index + 1) bFound)
      else textureID)"
  by pat_completeness auto
termination
  by (relation "measure (\<lambda>(ts, n, t, textureID, index, bFound).
        2 * (n - index) + (if bFound then 0 else 1))") auto

declare FindTextureID_loop.simps [simp del]

definition FindTextureID :: "SceneManager \<Rightarrow> string \<Rightarrow> int" where
  "FindTextureID s t = FindTextureID_loop (m_textureIDs s) (m_loadedTextures s) t (- 1) 0 False"

function FindTextureSlot_loop ::
  "TEXTURE_INFO list \<Rightarrow> nat \<Rightarrow> string \<Rightarrow> int \<Rightarrow> nat \<Rightarrow> bool \<Rightarrow> int" where
  "FindTextureSlot_loop ts n t textureSlot index bFound =
     (if index < n \<and> bFound = False then
        (if tex_tag (ts ! index) = t then
           FindTextureSlot_loop ts n t (int index) index True
         else FindTextureSlot_loop ts n t textureSlot (index + 1) bFound)
      else textureSlot)"
  by pat_completeness auto
termination
  by (relation "measure (\<lambda>(ts, n, t, textureSlot, index, bFound).
        2 * (n - index) + (if bFound then 0 else 1))") auto

declare FindTextureSlot_loop.simps [simp del]

definition FindTextureSlot :: "SceneManager \<Rightarrow> string \<Rightarrow> int" where
  "FindTextureSlot s t = FindTextureSlot_loop (m_textureIDs s) (m_loadedTextures s) t (- 1) 0 False"

subsection \<open>Transform composer and shader uniforms\<close>

text \<open>The local \<open>modelView\<close> of \<^verbatim>\<open>SetTransformations\<close>; the C++ product associates to
  the left.\<close>

definition modelView :: "vec3 \<Rightarrow> real \<Rightarrow> real \<Rightarrow> real \<Rightarrow> vec3 \<Rightarrow> mat4" where
  "modelView scaleXYZ XrotationDegrees YrotationDegrees ZrotationDegrees positionXYZ =
     (let scale = glm_scale scaleXYZ;
          rotationX = glm_rotate (radians XrotationDegrees) (Vec3 1 0 0);
          rotationY = glm_rotate (radians YrotationDegrees) (Vec3 0 1 0);
          rotationZ = glm_rotate (radians ZrotationDegrees) (Vec3 0 0 1);
          translation = glm_translate positionXYZ
      in mat4_mul (mat4_mul (mat4_mul (mat4_mul translation rotationZ) rotationY) rotationX) scale)"

definition SetTransformations ::
  "vec3 \<Rightarrow> real \<Rightarrow> real \<Rightarrow> real \<Rightarrow> vec3 \<Rightarrow> SceneManager \<Rightarrow> SceneManager" where
  "SetTransformations scaleXYZ XrotationDegrees YrotationDegrees ZrotationDegrees positionXYZ s =
     (case m_pShaderManager s of
        None \<Rightarrow> s
      | Some sm \<Rightarrow>
          s\<lparr>m_pShaderManager := Some (setMat4Value g_ModelName
              (modelView scaleXYZ XrotationDegrees YrotationDegrees ZrotationDegrees positionXYZ) sm)\<rparr>)"

text \<open>\<^verbatim>\<open>SetShaderColor\<close>: \<^verbatim>\<open>setIntValue(g_UseTextureName, false)\<close> passes the
  \<^verbatim>\<open>bool\<close> as the \<^verbatim>\<open>int\<close> 0.\<close>

definition SetShaderColor :: "real \<Rightarrow> real \<Rightarrow> real \<Rightarrow> real \<Rightarrow> SceneManager \<Rightarrow> SceneManager" where
  "SetShaderColor redColorValue greenColorValue blueColorValue alphaValue s =
     (let currentColor = Vec4 redColorValue greenColorValue blueColorValue alphaValue in
      case m_pShaderManager s of
        None \<Rightarrow> s
      | Some sm \<Rightarrow>
          s\<lparr>m_pShaderManager := Some (setVec4Value g_ColorValueName currentColor
              (setIntValue g_UseTextureName (of_bool False) sm))\<rparr>)"

text \<open>\<^verbatim>\<open>SetShaderTexture\<close>: the flag is written first, then the result of
  \<^verbatim>\<open>FindTextureSlot\<close> is written as it is.\<close>

definition SetShaderTexture :: "string \<Rightarrow> SceneManager \<Rightarrow> SceneManager" where
  "SetShaderTexture textureTag s =
     (case m_pShaderManager s of
        None \<Rightarrow> s
      | Some sm \<Rightarrow>
          (let sm1 = setIntValue g_UseTextureName (of_bool True) sm;
               textureID = FindTextureSlot s textureTag
           in s\<lparr>m_pShaderManager := Some (setSampler2DValue g_TextureValueName textureID sm1)\<rparr>))"

definition SetTextureUVScale :: "real \<Rightarrow> real \<Rightarrow> SceneManager \<Rightarrow> SceneManager" where
  "SetTextureUVScale u v s =
     (case m_pShaderManager s of
        None \<Rightarrow> s
      | Some sm \<Rightarrow> s\<lparr>m_pShaderManager := Some (setVec2Value ''UVscale'' (Vec2 u v) sm)\<rparr>)"

text \<open>
  \<^verbatim>\<open>SetupSceneLights\<close>: twenty setter calls in sequence, made through
  \<open>m_pShaderManager\<close> with no null test. The three-float overload of
  \<^verbatim>\<open>setVec3Value\<close> writes the vector of its arguments.
\<close>

definition SetupSceneLights :: "SceneManager \<Rightarrow> fault + SceneManager" where
  "SetupSceneLights s =
     (case m_pShaderManager s of
        None \<Rightarrow> Inl NullDereference
      | Some sm \<Rightarrow>
          Inr (s\<lparr>m_pShaderManager := Some (fold (\<lambda>setter. setter)
            [setBoolValue g_UseLightingName True,
             setVec3Value ''pointLights[0].position'' (Vec3 0 16 0),
             setVec3Value ''pointLights[0].ambient'' (Vec3 0.05 0.05 0.05),
             setVec3Value ''pointLights[0].diffuse'' (Vec3 0.6 0.6 0.6),
             setVec3Value ''pointLights[0].specular'' (Vec3 0.75 0.75 0.75),
             setBoolValue ''pointLights[0].bActive'' True,
             setVec3Value ''pointLights[1].position'' (Vec3 20 16 0),
             setVec3Value ''pointLights[1].ambient'' (Vec3 0.05 0.05 0.05),
             setVec3Value ''pointLights[1].diffuse'' (Vec3 0.6 0.6 0.6),
             setVec3Value ''pointLights[1].specular'' (Vec3 0.75 0.75 0.75),
             setBoolValue ''pointLights[1].bActive'' True,
             setVec3Value ''pointLights[2].position'' (Vec3 (- 20) 16 0),
             setVec3Value ''pointLights[2].ambient'' (Vec3 0.05 0.05 0.05),
             setVec3Value ''pointLights[2].diffuse'' (Vec3 0.6 0.6 0.6),
             setVec3Value ''pointLights[2].specular'' (Vec3 0.75 0.75 0.75),
             setBoolValue ''pointLights[2].bActive'' True,
             setVec3Value ''directionalLight.direction'' (Vec3 4 20 (- 4)),
             setVec3Value ''directionLight.ambient'' (Vec3 0.05 0.05 0.05),
             setVec3Value ''directionLight.diffuse'' (Vec3 0.6 0.6 0.6),
             setVec3Value ''directionLight.specular'' (Vec3 0 0 0)] sm)\<rparr>))"

subsection \<open>Sequences of calls\<close>

text \<open>
  The calls \<^verbatim>\<open>PrepareScene\<close> and \<^verbatim>\<open>RenderScene\<close> make to set shader uniforms,
  as data, so that statements can range over every sequence of them. A mesh draw
  (\<^verbatim>\<open>m_basicMeshes->Draw...Mesh()\<close>) is made on a \<^verbatim>\<open>ShapeMeshes\<close> object that is
  constructed without any reference to the scene manager or the shader manager; it
  leaves both untouched. \<open>calls\<close> stops at the first fault.
\<close>

datatype shader_call =
    CallSetTransformations vec3 real real real vec3
  | CallSetShaderColor real real real real
  | CallSetShaderTexture string
  | CallSetTextureUVScale real real
  | CallSetShaderMaterial OBJECT_MATERIAL string
  | CallSetupSceneLights
  | CallDrawMesh

fun call :: "shader_call \<Rightarrow> SceneManager \<Rightarrow> fault + SceneManager" where
  "call (CallSetTransformations sc xr yr zr p) s = Inr (SetTransformations sc xr yr zr p s)"
| "call (CallSetShaderColor r g b a) s = Inr (SetShaderColor r g b a s)"
| "call (CallSetShaderTexture t) s = Inr (SetShaderTexture t s)"
| "call (CallSetTextureUVScale u v) s = Inr (SetTextureUVScale u v s)"
| "call (CallSetShaderMaterial m t) s = SetShaderMaterial m t s"
| "call CallSetupSceneLights s = SetupSceneLights s"
| "call CallDrawMesh s = Inr s"

fun calls :: "shader_call list \<Rightarrow> SceneManager \<Rightarrow> fault + SceneManager" where
  "calls [] s = Inr s"
| "calls (c # cs) s = (case call c s of Inl e \<Rightarrow> Inl e | Inr s' \<Rightarrow> calls cs s')"

text \<open>The sampling mode a call asks for (\<open>True\<close>: textured, \<open>False\<close>: flat colour),
  and the mode asked for by the last such call of a sequence.\<close>

fun call_mode :: "shader_call \<Rightarrow> bool option" where
  "call_mode (CallSetShaderColor r g b a) = Some False"
| "call_mode (CallSetShaderTexture t) = Some True"
| "call_mode _ = None"

fun last_mode :: "shader_call list \<Rightarrow> bool option" where
  "last_mode [] = None"
| "last_mode (c # cs) = (case last_mode cs of Some b \<Rightarrow> Some b | None \<Rightarrow> call_mode c)"

text \<open>The use-texture flag as the shader sees it.\<close>

definition use_texture :: "SceneManager \<Rightarrow> int option" where
  "use_texture s =
     (case m_pShaderManager s of None \<Rightarrow> None | Some sm \<Rightarrow> int_uniform g_UseTextureName sm)"

subsection \<open>The composition order in the words of the specification\<close>

text \<open>
  The elementary maps on homogeneous coordinates: scaling per axis, the pure rotations
  about the X, Y and Z axes by an angle in radians, and translation. \<open>spec_compose\<close>
  applies scale first, then the rotations about X, Y and Z in that order (angles given
  in degrees), then the translation. \<open>mat4_translation\<close> reads the translation
  component of a matrix: the first three entries of its last column.
\<close>

fun spec_scale :: "vec3 \<Rightarrow> vec4 \<Rightarrow> vec4" where
  "spec_scale (Vec3 sx sy sz) (Vec4 x y z w) = Vec4 (sx * x) (sy * y) (sz * z) w"

fun spec_rotateX :: "real \<Rightarrow> vec4 \<Rightarrow> vec4" where
  "spec_rotateX a (Vec4 x y z w) = Vec4 x (cos a * y - sin a * z) (sin a * y + cos a * z) w"

fun spec_rotateY :: "real \<Rightarrow> vec4 \<Rightarrow> vec4" where
  "spec_rotateY a (Vec4 x y z w) = Vec4 (cos a * x + sin a * z) y (cos a * z - sin a * x) w"

fun spec_rotateZ :: "real \<Rightarrow> vec4 \<Rightarrow> vec4" where
  "spec_rotateZ a (Vec4 x y z w) = Vec4 (cos a * x - sin a * y) (sin a * x + cos a * y) z w"

fun spec_translate :: "vec3 \<Rightarrow> vec4 \<Rightarrow> vec4" where
  "spec_translate (Vec3 tx ty tz) (Vec4 x y z w) = Vec4 (x + tx * w) (y + ty * w) (z + tz * w) w"

definition spec_compose :: "vec3 \<Rightarrow> real \<Rightarrow> real \<Rightarrow> real \<Rightarrow> vec3 \<Rightarrow> vec4 \<Rightarrow> vec4" where
  "spec_compose scale rotX rotY rotZ position v =
     spec_translate position
       (spec_rotateZ (radians rotZ)
         (spec_rotateY (radians rotY)
           (spec_rotateX (radians rotX)
             (spec_scale scale v))))"


subsection \<open>The transform composer on non-finite floats\<close>

text \<open>
  A \<^verbatim>\<open>float\<close> is a finite value, an infinity or NaN. The operations follow IEEE 754
  on the special values: NaN is absorbing, zero times an infinity and the difference of
  equal infinities are NaN, and the cosine and sine of an infinity are NaN. On finite
  values they are exact (no rounding, no overflow, no signed zero).
\<close>

datatype float = Finite real | PosInf | NegInf | NaN









datatype fvec4 = FVec4 float float float float






definition fcol :: "real \<Rightarrow> real \<Rightarrow> real \<Rightarrow> real \<Rightarrow> fvec4" where
  "fcol x y z w = FVec4 (Finite x) (Finite y) (Finite z) (Finite w)"








fun finite4 :: "vec4 \<Rightarrow> fvec4" where
  "finite4 (Vec4 x y z w) = FVec4 (Finite x) (Finite y) (Finite z) (Finite w)"



subsection \<open>Concrete states\<close>

text \<open>The first material of \<^verbatim>\<open>DefineObjectMaterials\<close>, a scene whose catalog holds
  only that material, and a material value standing for the stale contents of an
  uninitialised local.\<close>

definition metalMaterial :: OBJECT_MATERIAL where
  "metalMaterial = \<lparr>diffuseColor = Vec3 0.2 0.2 1, specularColor = Vec3 0.6 0.5 0.4,
     shininess = 22, mat_tag = ''metal''\<rparr>"

definition stale_material :: OBJECT_MATERIAL where
  "stale_material = \<lparr>diffuseColor = Vec3 7 7 7, specularColor = Vec3 8 8 8,
     shininess = 9, mat_tag = ''''\<rparr>"

definition metal_scene :: SceneManager where
  "metal_scene = \<lparr>m_pShaderManager = Some [], m_textureIDs = [], m_loadedTextures = 0,
     m_objectMaterials = [metalMaterial]\<rparr>"

text \<open>The scene after \<open>register_texture\<close> has stored a pair: the entry at index
  \<open>m_loadedTextures\<close> carries the new name and tag, and the count is one higher.\<close>

definition registered :: "nat \<Rightarrow> string \<Rightarrow> SceneManager \<Rightarrow> SceneManager" where
  "registered tid t s =
     s\<lparr>m_textureIDs := (m_textureIDs s)[m_loadedTextures s :=
            (m_textureIDs s ! m_loadedTextures s)\<lparr>ID := tid, tex_tag := t\<rparr>],
       m_loadedTextures := m_loadedTextures s + 1\<rparr>"

text \<open>A 1x1 RGB image, a 1x1 single-channel image, and a decoder that knows two files.\<close>

definition rgb_image :: stb_image where
  "rgb_image = \<lparr>width = 1, height = 1, colorChannels = 3, pixels = [255, 0, 0]\<rparr>"

definition gray_image :: stb_image where
  "gray_image = \<lparr>width = 1, height = 1, colorChannels = 1, pixels = [128]\<rparr>"

definition image_files :: "string \<Rightarrow> stb_image option" where
  "image_files f = (if f = ''x.png'' then Some rgb_image
                    else if f = ''gray.png'' then Some gray_image else None)"

text \<open>A fresh OpenGL context, and a scene with a two-slot texture array and nothing
  registered.\<close>

definition gl_initial :: gl_state where
  "gl_initial = \<lparr>gl_names = [], gl_active = 0, gl_bound = (\<lambda>_. 0), gl_image = (\<lambda>_. None)\<rparr>"

definition blank_entry :: TEXTURE_INFO where
  "blank_entry = \<lparr>ID = 0, tex_tag = ''''\<rparr>"

definition empty_scene :: SceneManager where
  "empty_scene = \<lparr>m_pShaderManager = Some [], m_textureIDs = [blank_entry, blank_entry],
     m_loadedTextures = 0, m_objectMaterials = []\<rparr>"

text \<open>The states reached from there: after loading \<^verbatim>\<open>x.png\<close> as "steel", after
  \<open>BindGLTextures\<close>, after loading the same tag a second time, after a load of the
  single-channel file, and after \<open>DestroyGLTextures\<close>.\<close>

definition steel_gl :: gl_state where
  "steel_gl = \<lparr>gl_names = [1], gl_active = 0, gl_bound = (\<lambda>_. 0),
     gl_image = (\<lambda>_. None)(1 := Some (GL_RGB8, rgb_image))\<rparr>"

definition steel_scene :: SceneManager where
  "steel_scene = \<lparr>m_pShaderManager = Some [],
     m_textureIDs = [\<lparr>ID = 1, tex_tag = ''steel''\<rparr>, blank_entry],
     m_loadedTextures = 1, m_objectMaterials = []\<rparr>"

definition steel_bound_gl :: gl_state where
  "steel_bound_gl = \<lparr>gl_names = [1], gl_active = 0, gl_bound = (\<lambda>_. 0)(0 := 1),
     gl_image = (\<lambda>_. None)(1 := Some (GL_RGB8, rgb_image))\<rparr>"

definition twice_gl :: gl_state where
  "twice_gl = \<lparr>gl_names = [1, 2], gl_active = 0, gl_bound = (\<lambda>_. 0),
     gl_image = (\<lambda>_. None)(1 := Some (GL_RGB8, rgb_image), 2 := Some (GL_RGB8, rgb_image))\<rparr>"

definition twice_scene :: SceneManager where
  "twice_scene = \<lparr>m_pShaderManager = Some [],
     m_textureIDs = [\<lparr>ID = 1, tex_tag = ''steel''\<rparr>, \<lparr>ID = 2, tex_tag = ''steel''\<rparr>],
     m_loadedTextures = 2, m_objectMaterials = []\<rparr>"

definition gray_gl :: gl_state where
  "gray_gl = \<lparr>gl_names = [1], gl_active = 0, gl_bound = (\<lambda>_. 0)(0 := 1), gl_image = (\<lambda>_. None)\<rparr>"

definition regenerated_gl :: gl_state where
  "regenerated_gl = \<lparr>gl_names = [1, 2], gl_active = 0, gl_bound = (\<lambda>_. 0)(0 := 1),
     gl_image = (\<lambda>_. None)(1 := Some (GL_RGB8, rgb_image))\<rparr>"

definition regenerated_scene :: SceneManager where
  "regenerated_scene = \<lparr>m_pShaderManager = Some [],
     m_textureIDs = [\<lparr>ID = 2, tex_tag = ''steel''\<rparr>, blank_entry],
     m_loadedTextures = 1, m_objectMaterials = []\<rparr>"

text \<open>A scene whose texture array has sixteen slots, all in use after sixteen loads of
  "steel", and the OpenGL context that goes with it.\<close>

definition full_gl :: gl_state where
  "full_gl = \<lparr>gl_names = map Suc [0..<16], gl_active = 0, gl_bound = (\<lambda>_. 0),
     gl_image = (\<lambda>n. if 1 \<le> n \<and> n \<le> 16 then Some (GL_RGB8, rgb_image) else None)\<rparr>"

definition full_scene :: SceneManager where
  "full_scene = \<lparr>m_pShaderManager = Some [],
     m_textureIDs = map (\<lambda>i. \<lparr>ID = Suc i, tex_tag = ''steel''\<rparr>) [0..<16],
     m_loadedTextures = 16, m_objectMaterials = []\<rparr>"

text \<open>The calls \<^verbatim>\<open>RenderScene\<close> makes for the lighter's tapered cylinder and the
  transform and draw of its cylinder.\<close>

definition lighter_calls :: "shader_call list" where
  "lighter_calls =
     [CallSetTransformations (Vec3 0.5 3 0.5) 0 0 90 (Vec3 22 0.5 (- 8.6)),
      CallSetShaderColor 0.7 0.7 0.7 1,
      CallSetTextureUVScale 1 1,
      CallSetShaderTexture ''black'',
      CallSetShaderMaterial stale_material ''wood'',
      CallDrawMesh,
      CallSetTransformations (Vec3 0.5 3 0.35) 0 0 90 (Vec3 22 0.5 (- 8.6)),
      CallDrawMesh]"

text \<open>A 1x1 RGBA image and a decoder that knows it.\<close>

definition rgba_image :: stb_image where
  "rgba_image = \<lparr>width = 1, height = 1, colorChannels = 4, pixels = [255, 0, 0, 255]\<rparr>"

definition rgba_files :: "string \<Rightarrow> stb_image option" where
  "rgba_files f = (if f = ''y.png'' then Some rgba_image else None)"

section \<open>Properties\<close>

subsection \<open>Material lookup\<close>

lemma FindMaterial_loop_found: "FindMaterial_loop ms t i True m = m"
  by (subst FindMaterial_loop.simps) simp

text \<open>The loop is a first-match search from \<open>index\<close> on.\<close>

lemma FindMaterial_loop_find:
  "FindMaterial_loop ms t i False m =
     (case find (\<lambda>e. mat_tag e = t) (drop i ms) of
        None \<Rightarrow> m
      | Some e \<Rightarrow> m\<lparr>diffuseColor := diffuseColor e, specularColor := specularColor e,
                    shininess := shininess e\<rparr>)"
proof (induction "length ms - i" arbitrary: i)
  case 0
  then show ?case by (subst FindMaterial_loop.simps) simp
next
  case (Suc k)
  then have lt: "i < length ms" by simp
  then have d: "drop i ms = ms ! i # drop (Suc i) ms"
    by (simp add: Cons_nth_drop_Suc)
  from Suc have k: "k = length ms - Suc i" by simp
  show ?case
    by (subst FindMaterial_loop.simps) (simp add: lt d FindMaterial_loop_found Suc.hyps(1)[OF k])
qed

lemma find_absent: "t \<notin> mat_tag ` set ms \<Longrightarrow> find (\<lambda>e. mat_tag e = t) ms = None"
  by (induction ms) auto

text \<open>
  C10. The boolean returned by \<open>FindMaterial\<close> says only whether the catalog is
  non-empty: it is false exactly for the empty catalog and true for every tag, present
  or absent, otherwise. The output parameter is left as it was when the tag is absent,
  and receives the three fields of the first entry with that tag when it is present.
\<close>

theorem FindMaterial_reports_catalog_nonempty:
  "fst (FindMaterial s t m) = (m_objectMaterials s \<noteq> []) \<and>
   (t \<notin> mat_tag ` set (m_objectMaterials s) \<longrightarrow> snd (FindMaterial s t m) = m) \<and>
   snd (FindMaterial s t m) =
     (case find (\<lambda>e. mat_tag e = t) (m_objectMaterials s) of
        None \<Rightarrow> m
      | Some e \<Rightarrow> m\<lparr>diffuseColor := diffuseColor e, specularColor := specularColor e,
                    shininess := shininess e\<rparr>)"
  by (simp add: FindMaterial_def FindMaterial_loop_find find_absent)

theorem FindMaterial_reports_catalog_nonempty_witness:
  "''wood'' \<notin> mat_tag ` set (m_objectMaterials metal_scene) \<and>
   FindMaterial metal_scene ''wood'' stale_material = (True, stale_material)"
  using FindMaterial_reports_catalog_nonempty [of metal_scene "''wood''" stale_material]
  by (simp add: metal_scene_def metalMaterial_def prod_eq_iff)

text \<open>
  C1. With the catalog holding only "metal", \<open>SetShaderMaterial\<close> for the absent tag
  "wood" gets \<open>True\<close> from \<open>FindMaterial\<close> and writes the three material uniforms
  from the untouched local: the lookup does not report "not found", and the
  shader-side material state is overwritten.
\<close>

theorem SetShaderMaterial_absent_tag_writes:
  "SetShaderMaterial stale_material ''wood'' metal_scene =
     Inr (metal_scene\<lparr>m_pShaderManager := Some
       [Vec3Value ''material.diffuseColor'' (Vec3 7 7 7),
        Vec3Value ''material.specularColor'' (Vec3 8 8 8),
        FloatValue ''material.shininess'' 9]\<rparr>) \<and>
   FindMaterial metal_scene ''wood'' stale_material = (True, stale_material)"
  by (simp add: SetShaderMaterial_def FindMaterial_def FindMaterial_loop_find
      metal_scene_def metalMaterial_def stale_material_def
      setVec3Value_def setFloatValue_def)

subsection \<open>Texture lookup and registration\<close>

lemma FindTextureSlot_loop_found: "FindTextureSlot_loop ts n t r i True = r"
  by (subst FindTextureSlot_loop.simps) simp

lemma FindTextureSlot_loop_end: "n \<le> i \<Longrightarrow> FindTextureSlot_loop ts n t r i b = r"
  by (subst FindTextureSlot_loop.simps) simp

lemma FindTextureSlot_loop_hit:
  "k < n \<Longrightarrow> tex_tag (ts ! k) = t \<Longrightarrow> FindTextureSlot_loop ts n t r k False = int k"
  by (subst FindTextureSlot_loop.simps) (simp add: FindTextureSlot_loop_found)

lemma FindTextureSlot_loop_skip:
  "i \<le> k \<Longrightarrow> k \<le> n \<Longrightarrow> (\<forall>j. i \<le> j \<and> j < k \<longrightarrow> tex_tag (ts ! j) \<noteq> t) \<Longrightarrow>
   FindTextureSlot_loop ts n t r i False = FindTextureSlot_loop ts n t r k False"
proof (induction "k - i" arbitrary: i)
  case 0
  then show ?case by simp
next
  case (Suc d)
  then have lt: "i < k" and miss: "tex_tag (ts ! i) \<noteq> t" by auto
  have step: "FindTextureSlot_loop ts n t r i False = FindTextureSlot_loop ts n t r (i + 1) False"
    using lt Suc.prems(2) miss by (subst FindTextureSlot_loop.simps) simp
  have "FindTextureSlot_loop ts n t r (i + 1) False = FindTextureSlot_loop ts n t r k False"
    using Suc.hyps(1)[of "i + 1"] Suc.hyps(2) Suc.prems lt by auto
  with step show ?case by simp
qed

lemma FindTextureSlot_first:
  "k < n \<Longrightarrow> tex_tag (ts ! k) = t \<Longrightarrow> (\<forall>j<k. tex_tag (ts ! j) \<noteq> t) \<Longrightarrow>
   FindTextureSlot_loop ts n t r 0 False = int k"
  using FindTextureSlot_loop_skip[of 0 k n ts t r] FindTextureSlot_loop_hit[of k n ts t r]
  by simp

lemma FindTextureSlot_none:
  "(\<forall>j<n. tex_tag (ts ! j) \<noteq> t) \<Longrightarrow> FindTextureSlot_loop ts n t r 0 False = r"
  using FindTextureSlot_loop_skip[of 0 n n ts t r] FindTextureSlot_loop_end[of n n ts t r False]
  by simp

lemma fold_max_ge: "a \<le> fold max xs (a::nat)"
proof (induction xs arbitrary: a)
  case Nil
  then show ?case by simp
next
  case (Cons y ys)
  have "a \<le> max y a" by simp
  also have "max y a \<le> fold max ys (max y a)" by (rule Cons.IH)
  finally show ?case by simp
qed

lemma fold_max_mem: "x \<in> set xs \<Longrightarrow> x \<le> fold max xs (a::nat)"
proof (induction xs arbitrary: a)
  case Nil
  then show ?case by simp
next
  case (Cons y ys)
  show ?case
  proof (cases "x = y")
    case True
    have "max y a \<le> fold max ys (max y a)" by (rule fold_max_ge)
    then show ?thesis using True by simp
  next
    case False
    with Cons show ?thesis by simp
  qed
qed

lemma gl_fresh_unused: "gl_fresh names \<notin> set names"
  using fold_max_mem[of "gl_fresh names" names 0] by (auto simp: gl_fresh_def)

lemma register_texture_ok:
  "m_loadedTextures s < length (m_textureIDs s) \<Longrightarrow>
   register_texture tid t g s =
     Inr (True, glBindTexture 0 g,
       s\<lparr>m_textureIDs := (m_textureIDs s)[m_loadedTextures s :=
            (m_textureIDs s ! m_loadedTextures s)\<lparr>ID := tid, tex_tag := t\<rparr>],
         m_loadedTextures := m_loadedTextures s + 1\<rparr>)"
  by (simp add: register_texture_def Let_def)

lemma CreateGLTexture_valid:
  assumes "stbi_load f = Some img" "colorChannels img = 3 \<or> colorChannels img = 4"
    and "m_loadedTextures s < length (m_textureIDs s)"
  shows "\<exists>g'. CreateGLTexture stbi_load f t (g, s) =
            Inr (True, g', registered (gl_fresh (gl_names g)) t s) \<and>
          gl_names g' = gl_names g @ [gl_fresh (gl_names g)]"
  using assms
  by (auto simp: CreateGLTexture_def glGenTextures_def Let_def register_texture_ok registered_def
      glBindTexture_def glTexImage2D_def)

lemma CreateGLTexture_true:
  assumes "CreateGLTexture stbi_load f t (g, s) = Inr (True, g', s')"
  shows "(\<exists>img. stbi_load f = Some img \<and> (colorChannels img = 3 \<or> colorChannels img = 4)) \<and>
         m_loadedTextures s < length (m_textureIDs s) \<and>
         s' = registered (gl_fresh (gl_names g)) t s \<and>
         gl_names g' = gl_names g @ [gl_fresh (gl_names g)]"
  using assms
  by (auto simp: CreateGLTexture_def glGenTextures_def Let_def register_texture_def registered_def
      glBindTexture_def glTexImage2D_def split: option.splits if_splits)

lemma CreateGLTexture_false:
  assumes "CreateGLTexture stbi_load f t (g, s) = Inr (False, g', s')"
  shows "s' = s \<and> (stbi_load f = None \<or>
           (\<exists>img. stbi_load f = Some img \<and> colorChannels img \<noteq> 3 \<and> colorChannels img \<noteq> 4))"
  using assms
  by (auto simp: CreateGLTexture_def glGenTextures_def Let_def register_texture_def
      split: option.splits if_splits)

lemma load_steel:
  "CreateGLTexture image_files ''x.png'' ''steel'' (gl_initial, empty_scene) = Inr (True, steel_gl, steel_scene)"
  by (simp add: CreateGLTexture_def image_files_def rgb_image_def gl_initial_def empty_scene_def
      steel_gl_def steel_scene_def blank_entry_def glGenTextures_def gl_fresh_def
      glBindTexture_def glTexImage2D_def register_texture_def Let_def fun_upd_idem_iff)

lemma bind_steel: "BindGLTextures (steel_gl, steel_scene) = (steel_bound_gl, steel_scene)"
  apply (simp add: BindGLTextures_def)
  apply (subst BindGLTextures_loop.simps)
  apply (subst BindGLTextures_loop.simps)
  apply (simp add: steel_gl_def steel_scene_def steel_bound_gl_def glBindTexture_def glActiveTexture_def)
  done

lemma registered_simps:
  "m_loadedTextures (registered tid t s) = m_loadedTextures s + 1"
  "length (m_textureIDs (registered tid t s)) = length (m_textureIDs s)"
  "m_pShaderManager (registered tid t s) = m_pShaderManager s"
  "m_objectMaterials (registered tid t s) = m_objectMaterials s"
  "j < m_loadedTextures s \<Longrightarrow> m_textureIDs (registered tid t s) ! j = m_textureIDs s ! j"
  "m_loadedTextures s < length (m_textureIDs s) \<Longrightarrow>
     m_textureIDs (registered tid t s) ! m_loadedTextures s =
       (m_textureIDs s ! m_loadedTextures s)\<lparr>ID := tid, tex_tag := t\<rparr>"
  by (simp_all add: registered_def)

lemma load_gray:
  "CreateGLTexture image_files ''gray.png'' ''steel'' (gl_initial, empty_scene) = Inr (False, gray_gl, empty_scene)"
  by (simp add: CreateGLTexture_def image_files_def gray_image_def gl_initial_def
      gray_gl_def glGenTextures_def gl_fresh_def glBindTexture_def Let_def)

text \<open>
  C5, as amended. When the decoded image has a channel count other than 3 and 4,
  \<open>CreateGLTexture\<close> returns \<open>False\<close> and the scene, hence the number of registered
  textures, is unchanged; that \<open>False\<close> is the same value a file that cannot be decoded
  gives, there is no separate format error. When the image has 3 or 4 channels and the
  registry holds fewer entries than the array has slots, the call returns \<open>True\<close> and
  exactly one entry is added: the count grows by one, the array keeps its length, the
  entries registered before are untouched, and the new entry carries the tag.
\<close>

theorem CreateGLTexture_channel_check:
  "(stbi_load f = Some img \<and> colorChannels img \<noteq> 3 \<and> colorChannels img \<noteq> 4 \<longrightarrow>
      (\<exists>g'. CreateGLTexture stbi_load f t (g, s) = Inr (False, g', s))) \<and>
   (stbi_load f = None \<longrightarrow> CreateGLTexture stbi_load f t (g, s) = Inr (False, g, s)) \<and>
   (stbi_load f = Some img \<and> (colorChannels img = 3 \<or> colorChannels img = 4) \<and>
    m_loadedTextures s < length (m_textureIDs s) \<longrightarrow>
      (\<exists>g' s'. CreateGLTexture stbi_load f t (g, s) = Inr (True, g', s') \<and>
         m_loadedTextures s' = m_loadedTextures s + 1 \<and>
         length (m_textureIDs s') = length (m_textureIDs s) \<and>
         (\<forall>j<m_loadedTextures s. m_textureIDs s' ! j = m_textureIDs s ! j) \<and>
         tex_tag (m_textureIDs s' ! m_loadedTextures s) = t))"
proof (intro conjI impI)
  assume "stbi_load f = Some img \<and> colorChannels img \<noteq> 3 \<and> colorChannels img \<noteq> 4"
  then show "\<exists>g'. CreateGLTexture stbi_load f t (g, s) = Inr (False, g', s)"
    by (simp add: CreateGLTexture_def glGenTextures_def Let_def)
next
  assume "stbi_load f = None"
  then show "CreateGLTexture stbi_load f t (g, s) = Inr (False, g, s)"
    by (simp add: CreateGLTexture_def)
next
  assume a: "stbi_load f = Some img \<and> (colorChannels img = 3 \<or> colorChannels img = 4) \<and>
    m_loadedTextures s < length (m_textureIDs s)"
  then obtain g' where
    "CreateGLTexture stbi_load f t (g, s) = Inr (True, g', registered (gl_fresh (gl_names g)) t s)"
    using CreateGLTexture_valid[of stbi_load f img s t g] by blast
  with a show "\<exists>g' s'. CreateGLTexture stbi_load f t (g, s) = Inr (True, g', s') \<and>
         m_loadedTextures s' = m_loadedTextures s + 1 \<and>
         length (m_textureIDs s') = length (m_textureIDs s) \<and>
         (\<forall>j<m_loadedTextures s. m_textureIDs s' ! j = m_textureIDs s ! j) \<and>
         tex_tag (m_textureIDs s' ! m_loadedTextures s) = t"
    by (simp add: registered_simps)
qed

theorem CreateGLTexture_channel_check_witness:
  "image_files ''gray.png'' = Some gray_image \<and> colorChannels gray_image \<noteq> 3 \<and>
   colorChannels gray_image \<noteq> 4 \<and>
   (\<exists>g'. CreateGLTexture image_files ''gray.png'' ''steel'' (gl_initial, empty_scene) =
      Inr (False, g', empty_scene)) \<and>
   image_files ''nofile.png'' = None \<and>
   CreateGLTexture image_files ''nofile.png'' ''steel'' (gl_initial, empty_scene) =
      Inr (False, gl_initial, empty_scene) \<and>
   image_files ''x.png'' = Some rgb_image \<and> colorChannels rgb_image = 3 \<and>
   m_loadedTextures empty_scene < length (m_textureIDs empty_scene) \<and>
   (\<exists>g' s'. CreateGLTexture image_files ''x.png'' ''steel'' (gl_initial, empty_scene) =
      Inr (True, g', s') \<and> m_loadedTextures s' = 1 \<and>
      tex_tag (m_textureIDs s' ! 0) = ''steel'')"
proof -
  have h1: "image_files ''gray.png'' = Some gray_image \<and> colorChannels gray_image \<noteq> 3 \<and>
      colorChannels gray_image \<noteq> 4"
    by (simp add: image_files_def gray_image_def)
  have h2: "image_files ''x.png'' = Some rgb_image \<and>
      (colorChannels rgb_image = 3 \<or> colorChannels rgb_image = 4) \<and>
      m_loadedTextures empty_scene < length (m_textureIDs empty_scene)"
    by (simp add: image_files_def rgb_image_def empty_scene_def)
  have h3: "image_files ''nofile.png'' = None"
    by (simp add: image_files_def)
  have c1: "\<exists>g'. CreateGLTexture image_files ''gray.png'' ''steel'' (gl_initial, empty_scene) =
      Inr (False, g', empty_scene)"
    using CreateGLTexture_channel_check
      [of image_files "''gray.png''" gray_image "''steel''" gl_initial empty_scene] h1
    by blast
  have c2: "\<exists>g' s'. CreateGLTexture image_files ''x.png'' ''steel'' (gl_initial, empty_scene) =
      Inr (True, g', s') \<and> m_loadedTextures s' = 1 \<and> tex_tag (m_textureIDs s' ! 0) = ''steel''"
    using CreateGLTexture_channel_check
      [of image_files "''x.png''" rgb_image "''steel''" gl_initial empty_scene] h2
    by (auto simp: empty_scene_def)
  have c3: "CreateGLTexture image_files ''nofile.png'' ''steel'' (gl_initial, empty_scene) =
      Inr (False, gl_initial, empty_scene)"
    using CreateGLTexture_channel_check
      [of image_files "''nofile.png''" gray_image "''steel''" gl_initial empty_scene] h3
    by blast
  from h1 h2 h3 c1 c2 c3 show ?thesis by (simp add: rgb_image_def)
qed

text \<open>
  C5, as stated, fails. With all sixteen slots in use, the load of a valid 4-channel image
  does not succeed with one more entry: the source runs on to the store at index
  \<open>m_loadedTextures\<close>, past the end of the array.
\<close>

theorem CreateGLTexture_valid_image_full_registry:
  "rgba_files ''y.png'' = Some rgba_image \<and> colorChannels rgba_image = 4 \<and>
   m_loadedTextures full_scene = 16 \<and> length (m_textureIDs full_scene) = 16 \<and>
   CreateGLTexture rgba_files ''y.png'' ''wood_log'' (full_gl, full_scene) = Inl OutOfBounds"
  by (simp add: CreateGLTexture_def rgba_files_def rgba_image_def full_scene_def
      glGenTextures_def register_texture_def Let_def)

text \<open>
  C4, as amended. \<open>CreateGLTexture\<close> has no capacity test and no capacity failure:
  whenever it returns \<open>False\<close> the file could not be decoded or its channel count is
  neither 3 nor 4, and the scene is unchanged. While the registry holds fewer entries
  than the array has slots, a load of a decodable 3- or 4-channel image returns
  \<open>True\<close>, stores the tag with a newly generated texture name at index
  \<open>m_loadedTextures\<close> (the next free slot) and increments the count.
\<close>

theorem CreateGLTexture_registers_next_slot:
  "(stbi_load f = Some img \<and> (colorChannels img = 3 \<or> colorChannels img = 4) \<and>
    m_loadedTextures s < length (m_textureIDs s) \<longrightarrow>
      (\<exists>g'. CreateGLTexture stbi_load f t (g, s) =
         Inr (True, g',
              s\<lparr>m_textureIDs := (m_textureIDs s)[m_loadedTextures s :=
                   (m_textureIDs s ! m_loadedTextures s)\<lparr>ID := gl_fresh (gl_names g), tex_tag := t\<rparr>],
                m_loadedTextures := m_loadedTextures s + 1\<rparr>) \<and>
         gl_fresh (gl_names g) \<in> set (gl_names g') \<and> gl_fresh (gl_names g) \<notin> set (gl_names g))) \<and>
   (\<forall>g' s'. CreateGLTexture stbi_load f t (g, s) = Inr (False, g', s') \<longrightarrow>
      s' = s \<and> (stbi_load f = None \<or>
        (\<exists>img'. stbi_load f = Some img' \<and> colorChannels img' \<noteq> 3 \<and> colorChannels img' \<noteq> 4)))"
proof (intro conjI impI allI)
  assume a: "stbi_load f = Some img \<and> (colorChannels img = 3 \<or> colorChannels img = 4) \<and>
    m_loadedTextures s < length (m_textureIDs s)"
  then obtain g' where
    "CreateGLTexture stbi_load f t (g, s) = Inr (True, g', registered (gl_fresh (gl_names g)) t s)"
    "gl_names g' = gl_names g @ [gl_fresh (gl_names g)]"
    using CreateGLTexture_valid[of stbi_load f img s t g] by blast
  then show "\<exists>g'. CreateGLTexture stbi_load f t (g, s) =
         Inr (True, g',
              s\<lparr>m_textureIDs := (m_textureIDs s)[m_loadedTextures s :=
                   (m_textureIDs s ! m_loadedTextures s)\<lparr>ID := gl_fresh (gl_names g), tex_tag := t\<rparr>],
                m_loadedTextures := m_loadedTextures s + 1\<rparr>) \<and>
         gl_fresh (gl_names g) \<in> set (gl_names g') \<and> gl_fresh (gl_names g) \<notin> set (gl_names g)"
    by (auto simp: registered_def gl_fresh_unused)
next
  fix g' s'
  assume "CreateGLTexture stbi_load f t (g, s) = Inr (False, g', s')"
  from CreateGLTexture_false[OF this]
  show "s' = s" and "stbi_load f = None \<or>
        (\<exists>img'. stbi_load f = Some img' \<and> colorChannels img' \<noteq> 3 \<and> colorChannels img' \<noteq> 4)"
    by simp_all
qed

theorem CreateGLTexture_registers_next_slot_witness:
  "image_files ''x.png'' = Some rgb_image \<and> colorChannels rgb_image = 3 \<and>
   m_loadedTextures empty_scene < length (m_textureIDs empty_scene) \<and>
   CreateGLTexture image_files ''x.png'' ''steel'' (gl_initial, empty_scene) =
     Inr (True, steel_gl, steel_scene) \<and>
   CreateGLTexture image_files ''gray.png'' ''steel'' (gl_initial, empty_scene) =
     Inr (False, gray_gl, empty_scene) \<and>
   image_files ''gray.png'' = Some gray_image \<and> colorChannels gray_image = 1"
proof -
  have h: "image_files ''x.png'' = Some rgb_image \<and>
      (colorChannels rgb_image = 3 \<or> colorChannels rgb_image = 4) \<and>
      m_loadedTextures empty_scene < length (m_textureIDs empty_scene)"
    by (simp add: image_files_def rgb_image_def empty_scene_def)
  have g: "CreateGLTexture image_files ''gray.png'' ''steel'' (gl_initial, empty_scene) =
     Inr (False, gray_gl, empty_scene)"
    by (rule load_gray)
  have "\<exists>g'. CreateGLTexture image_files ''x.png'' ''steel'' (gl_initial, empty_scene) =
         Inr (True, g',
              empty_scene\<lparr>m_textureIDs := (m_textureIDs empty_scene)[m_loadedTextures empty_scene :=
                   (m_textureIDs empty_scene ! m_loadedTextures empty_scene)
                     \<lparr>ID := gl_fresh (gl_names gl_initial), tex_tag := ''steel''\<rparr>],
                m_loadedTextures := m_loadedTextures empty_scene + 1\<rparr>)"
    and "image_files ''gray.png'' = None \<or>
        (\<exists>img'. image_files ''gray.png'' = Some img' \<and> colorChannels img' \<noteq> 3 \<and> colorChannels img' \<noteq> 4)"
    using CreateGLTexture_registers_next_slot
      [of image_files "''x.png''" rgb_image empty_scene "''steel''" gl_initial] h
      CreateGLTexture_registers_next_slot
      [of image_files "''gray.png''" rgb_image empty_scene "''steel''" gl_initial] g
    by blast+
  then show ?thesis
    using h g load_steel by (simp add: image_files_def gray_image_def rgb_image_def)
qed

lemma FindTextureSlot_first_exists:
  assumes "k < n" "tex_tag (ts ! k) = t"
  shows "\<exists>i\<le>k. FindTextureSlot_loop ts n t r 0 False = int i \<and> tex_tag (ts ! i) = t"
proof -
  define i where "i = (LEAST j. tex_tag (ts ! j) = t)"
  have hit: "tex_tag (ts ! i) = t" unfolding i_def using assms(2) by (rule LeastI)
  have le: "i \<le> k" unfolding i_def using assms(2) by (rule Least_le)
  have "\<forall>j<i. tex_tag (ts ! j) \<noteq> t" unfolding i_def using not_less_Least by blast
  with hit le assms(1) have "FindTextureSlot_loop ts n t r 0 False = int i"
    by (intro FindTextureSlot_first) auto
  with hit le show ?thesis by blast
qed

lemma CreateGLTexture_twice:
  assumes c1: "CreateGLTexture stbi_load f1 t (g, s) = Inr (True, g1, s1)"
    and c2: "CreateGLTexture stbi_load f2 t (g1, s1) = Inr (True, g2, s2)"
  shows "registry_ok s2 \<and> m_loadedTextures s2 = m_loadedTextures s + 2 \<and>
      tex_tag (m_textureIDs s2 ! m_loadedTextures s) = t \<and>
      tex_tag (m_textureIDs s2 ! (m_loadedTextures s + 1)) = t \<and>
      ID (m_textureIDs s2 ! m_loadedTextures s) \<noteq> ID (m_textureIDs s2 ! (m_loadedTextures s + 1)) \<and>
      FindTextureSlot s2 t \<noteq> int (m_loadedTextures s + 1) \<and>
      ((\<forall>j<m_loadedTextures s. tex_tag (m_textureIDs s ! j) \<noteq> t) \<longrightarrow>
         FindTextureSlot s2 t = int (m_loadedTextures s))"
proof (intro conjI impI)
  let ?n = "m_loadedTextures s"
  note r1 = CreateGLTexture_true[OF c1] and r2 = CreateGLTexture_true[OF c2]
  from r1 have lt1: "?n < length (m_textureIDs s)"
    and s1: "s1 = registered (gl_fresh (gl_names g)) t s"
    and n1: "gl_names g1 = gl_names g @ [gl_fresh (gl_names g)]" by simp_all
  from r2 have lt2: "m_loadedTextures s1 < length (m_textureIDs s1)"
    and s2: "s2 = registered (gl_fresh (gl_names g1)) t s1" by simp_all
  have cnt1: "m_loadedTextures s1 = ?n + 1" by (simp add: s1 registered_simps)
  have e2: "m_textureIDs s2 ! (?n + 1) =
      (m_textureIDs s1 ! (?n + 1))\<lparr>ID := gl_fresh (gl_names g1), tex_tag := t\<rparr>"
    using registered_simps(6)[OF lt2, of "gl_fresh (gl_names g1)" t] by (simp add: s2 cnt1)
  have e1: "m_textureIDs s2 ! ?n = (m_textureIDs s ! ?n)\<lparr>ID := gl_fresh (gl_names g), tex_tag := t\<rparr>"
    using registered_simps(5)[of ?n s1 "gl_fresh (gl_names g1)" t]
      registered_simps(6)[OF lt1, of "gl_fresh (gl_names g)" t]
    by (simp add: s2 s1 registered_simps(1))
  have old: "\<And>j. j < ?n \<Longrightarrow> m_textureIDs s2 ! j = m_textureIDs s ! j"
    by (simp add: s2 s1 registered_simps(1,5))
  show cnt2: "m_loadedTextures s2 = ?n + 2" by (simp add: s2 cnt1 registered_simps)
  show "registry_ok s2"
    using lt2 by (simp add: registry_ok_def s2 registered_simps)
  show t1: "tex_tag (m_textureIDs s2 ! ?n) = t" by (simp add: e1)
  show "tex_tag (m_textureIDs s2 ! (?n + 1)) = t" using e2 by simp
  have "gl_fresh (gl_names g1) \<noteq> gl_fresh (gl_names g)"
    using gl_fresh_unused[of "gl_names g1"] by (auto simp: n1)
  then show "ID (m_textureIDs s2 ! ?n) \<noteq> ID (m_textureIDs s2 ! (?n + 1))"
    using e1 e2 by simp
  have "?n < m_loadedTextures s2" by (simp add: cnt2)
  from FindTextureSlot_first_exists[OF this t1, of "- 1"]
  show "FindTextureSlot s2 t \<noteq> int (?n + 1)"
    by (auto simp: FindTextureSlot_def)
  show "FindTextureSlot s2 t = int ?n" if "\<forall>j<?n. tex_tag (m_textureIDs s ! j) \<noteq> t"
  proof -
    from that have "\<forall>j<?n. tex_tag (m_textureIDs s2 ! j) \<noteq> t" by (simp add: old)
    then show ?thesis
      using t1 cnt2 by (simp add: FindTextureSlot_def FindTextureSlot_first)
  qed
qed

lemma load_steel_again:
  "CreateGLTexture image_files ''x.png'' ''steel'' (steel_gl, steel_scene) = Inr (True, twice_gl, twice_scene)"
  by (simp add: CreateGLTexture_def image_files_def rgb_image_def
      steel_gl_def steel_scene_def twice_gl_def twice_scene_def blank_entry_def glGenTextures_def
      gl_fresh_def glBindTexture_def glTexImage2D_def register_texture_def Let_def fun_upd_idem_iff
      numeral_2_eq_2)

text \<open>
  C8. \<open>FindTextureSlot\<close> is a first-match linear lookup in registration order: it
  returns the index \<open>k\<close> of a registered entry with the tag when no earlier entry has
  that tag, and -1 when no registered entry has it. Loading the same tag twice is not
  rejected: with two decodable 3- or 4-channel images and two free slots both loads
  return \<open>True\<close>, the count grows by two, both new entries carry the tag and hold
  different texture names. \<open>FindTextureSlot\<close> then never answers with the later of
  the two, and answers with the earlier one when the tag was not registered before.
\<close>

theorem FindTextureSlot_first_match:
  "(registry_ok s \<and> k < m_loadedTextures s \<and> tex_tag (m_textureIDs s ! k) = t \<and>
    (\<forall>j<k. tex_tag (m_textureIDs s ! j) \<noteq> t) \<longrightarrow> FindTextureSlot s t = int k) \<and>
   (registry_ok s \<and> (\<forall>j<m_loadedTextures s. tex_tag (m_textureIDs s ! j) \<noteq> t) \<longrightarrow>
      FindTextureSlot s t = - 1) \<and>
   (stbi_load f1 = Some img1 \<and> (colorChannels img1 = 3 \<or> colorChannels img1 = 4) \<and>
    stbi_load f2 = Some img2 \<and> (colorChannels img2 = 3 \<or> colorChannels img2 = 4) \<and>
    m_loadedTextures s + 1 < length (m_textureIDs s) \<longrightarrow>
      (\<exists>g1 s1 g2 s2.
         CreateGLTexture stbi_load f1 t (g, s) = Inr (True, g1, s1) \<and>
         CreateGLTexture stbi_load f2 t (g1, s1) = Inr (True, g2, s2) \<and>
         registry_ok s2 \<and> m_loadedTextures s2 = m_loadedTextures s + 2 \<and>
         tex_tag (m_textureIDs s2 ! m_loadedTextures s) = t \<and>
         tex_tag (m_textureIDs s2 ! (m_loadedTextures s + 1)) = t \<and>
         ID (m_textureIDs s2 ! m_loadedTextures s) \<noteq> ID (m_textureIDs s2 ! (m_loadedTextures s + 1)) \<and>
         FindTextureSlot s2 t \<noteq> int (m_loadedTextures s + 1) \<and>
         ((\<forall>j<m_loadedTextures s. tex_tag (m_textureIDs s ! j) \<noteq> t) \<longrightarrow>
            FindTextureSlot s2 t = int (m_loadedTextures s))))"
proof (intro conjI impI)
  assume "registry_ok s \<and> k < m_loadedTextures s \<and> tex_tag (m_textureIDs s ! k) = t \<and>
    (\<forall>j<k. tex_tag (m_textureIDs s ! j) \<noteq> t)"
  then show "FindTextureSlot s t = int k"
    by (simp add: FindTextureSlot_def FindTextureSlot_first)
next
  assume "registry_ok s \<and> (\<forall>j<m_loadedTextures s. tex_tag (m_textureIDs s ! j) \<noteq> t)"
  then show "FindTextureSlot s t = - 1"
    by (simp add: FindTextureSlot_def FindTextureSlot_none)
next
  assume a: "stbi_load f1 = Some img1 \<and> (colorChannels img1 = 3 \<or> colorChannels img1 = 4) \<and>
    stbi_load f2 = Some img2 \<and> (colorChannels img2 = 3 \<or> colorChannels img2 = 4) \<and>
    m_loadedTextures s + 1 < length (m_textureIDs s)"
  then have room: "m_loadedTextures s < length (m_textureIDs s)" by simp
  from a room obtain g1 where
    c1: "CreateGLTexture stbi_load f1 t (g, s) = Inr (True, g1, registered (gl_fresh (gl_names g)) t s)"
    using CreateGLTexture_valid[of stbi_load f1 img1 s t g] by blast
  let ?s1 = "registered (gl_fresh (gl_names g)) t s"
  have "m_loadedTextures ?s1 < length (m_textureIDs ?s1)"
    using a by (simp add: registered_simps)
  with a obtain g2 where
    c2: "CreateGLTexture stbi_load f2 t (g1, ?s1) =
           Inr (True, g2, registered (gl_fresh (gl_names g1)) t ?s1)"
    using CreateGLTexture_valid[of stbi_load f2 img2 ?s1 t g1] by blast
  from CreateGLTexture_twice[OF c1 c2] c1 c2
  show "\<exists>g1 s1 g2 s2.
         CreateGLTexture stbi_load f1 t (g, s) = Inr (True, g1, s1) \<and>
         CreateGLTexture stbi_load f2 t (g1, s1) = Inr (True, g2, s2) \<and>
         registry_ok s2 \<and> m_loadedTextures s2 = m_loadedTextures s + 2 \<and>
         tex_tag (m_textureIDs s2 ! m_loadedTextures s) = t \<and>
         tex_tag (m_textureIDs s2 ! (m_loadedTextures s + 1)) = t \<and>
         ID (m_textureIDs s2 ! m_loadedTextures s) \<noteq> ID (m_textureIDs s2 ! (m_loadedTextures s + 1)) \<and>
         FindTextureSlot s2 t \<noteq> int (m_loadedTextures s + 1) \<and>
         ((\<forall>j<m_loadedTextures s. tex_tag (m_textureIDs s ! j) \<noteq> t) \<longrightarrow>
            FindTextureSlot s2 t = int (m_loadedTextures s))"
    by blast
qed

theorem FindTextureSlot_first_match_witness:
  "registry_ok twice_scene \<and> 0 < m_loadedTextures twice_scene \<and>
   tex_tag (m_textureIDs twice_scene ! 0) = ''steel'' \<and>
   tex_tag (m_textureIDs twice_scene ! 1) = ''steel'' \<and>
   FindTextureSlot twice_scene ''steel'' = 0 \<and>
   FindTextureSlot twice_scene ''missing'' = - 1 \<and>
   image_files ''x.png'' = Some rgb_image \<and> colorChannels rgb_image = 3 \<and>
   m_loadedTextures empty_scene + 1 < length (m_textureIDs empty_scene) \<and>
   CreateGLTexture image_files ''x.png'' ''steel'' (gl_initial, empty_scene) =
     Inr (True, steel_gl, steel_scene) \<and>
   CreateGLTexture image_files ''x.png'' ''steel'' (steel_gl, steel_scene) =
     Inr (True, twice_gl, twice_scene) \<and>
   (\<exists>g1 s1 g2 s2.
      CreateGLTexture image_files ''x.png'' ''steel'' (gl_initial, empty_scene) = Inr (True, g1, s1) \<and>
      CreateGLTexture image_files ''x.png'' ''steel'' (g1, s1) = Inr (True, g2, s2) \<and>
      m_loadedTextures s2 = 2 \<and> FindTextureSlot s2 ''steel'' = 0)"
proof -
  have ok: "registry_ok twice_scene"
    by (simp add: registry_ok_def twice_scene_def)
  have first: "0 < m_loadedTextures twice_scene \<and> tex_tag (m_textureIDs twice_scene ! 0) = ''steel'' \<and>
      (\<forall>j<0. tex_tag (m_textureIDs twice_scene ! j) \<noteq> ''steel'')"
    by (simp add: twice_scene_def)
  have second: "tex_tag (m_textureIDs twice_scene ! 1) = ''steel''"
    by (simp add: twice_scene_def)
  have none: "\<forall>j<m_loadedTextures twice_scene. tex_tag (m_textureIDs twice_scene ! j) \<noteq> ''missing''"
    by (simp add: twice_scene_def less_Suc_eq numeral_2_eq_2)
  have img: "image_files ''x.png'' = Some rgb_image \<and>
      (colorChannels rgb_image = 3 \<or> colorChannels rgb_image = 4) \<and>
      m_loadedTextures empty_scene + 1 < length (m_textureIDs empty_scene)"
    by (simp add: image_files_def rgb_image_def empty_scene_def)
  have fresh: "\<forall>j<m_loadedTextures empty_scene. tex_tag (m_textureIDs empty_scene ! j) \<noteq> ''steel''"
    by (simp add: empty_scene_def)
  have n0: "m_loadedTextures empty_scene = 0" by (simp add: empty_scene_def)
  have hit: "FindTextureSlot twice_scene ''steel'' = 0"
    using FindTextureSlot_first_match
      [of twice_scene 0 "''steel''" image_files "''x.png''" rgb_image "''x.png''" rgb_image gl_initial]
      ok first
    by simp
  have miss: "FindTextureSlot twice_scene ''missing'' = - 1"
    using FindTextureSlot_first_match
      [of twice_scene 0 "''missing''" image_files "''x.png''" rgb_image "''x.png''" rgb_image gl_initial]
      ok none
    by blast
  have two: "\<exists>g1 s1 g2 s2.
      CreateGLTexture image_files ''x.png'' ''steel'' (gl_initial, empty_scene) = Inr (True, g1, s1) \<and>
      CreateGLTexture image_files ''x.png'' ''steel'' (g1, s1) = Inr (True, g2, s2) \<and>
      m_loadedTextures s2 = 2 \<and> FindTextureSlot s2 ''steel'' = 0"
    using FindTextureSlot_first_match
      [of empty_scene 0 "''steel''" image_files "''x.png''" rgb_image "''x.png''" rgb_image gl_initial]
      img fresh n0
    by auto
  from ok first second hit miss img two load_steel load_steel_again show ?thesis
    by (simp add: rgb_image_def)
qed

lemma BindGLTextures_loop_binds:
  "i \<le> m_loadedTextures s \<Longrightarrow> (\<forall>j<i. gl_bound g j = ID (m_textureIDs s ! j)) \<Longrightarrow>
   \<forall>j<m_loadedTextures s. gl_bound (BindGLTextures_loop s i g) j = ID (m_textureIDs s ! j)"
proof (induction "m_loadedTextures s - i" arbitrary: i g)
  case 0
  then show ?case by (subst BindGLTextures_loop.simps) simp
next
  case (Suc d)
  then have lt: "i < m_loadedTextures s" by simp
  let ?g = "glBindTexture (ID (m_textureIDs s ! i)) (glActiveTexture i g)"
  have inv: "\<forall>j<i + 1. gl_bound ?g j = ID (m_textureIDs s ! j)"
    using Suc.prems(2) by (simp add: glBindTexture_def glActiveTexture_def less_Suc_eq)
  have "\<forall>j<m_loadedTextures s. gl_bound (BindGLTextures_loop s (i + 1) ?g) j = ID (m_textureIDs s ! j)"
    using Suc.hyps(1)[of "i + 1" ?g] Suc.hyps(2) lt inv by simp
  then show ?case
    using lt by (subst BindGLTextures_loop.simps) simp
qed

lemma FindTextureSlot_registered_first:
  "m_loadedTextures s = 0 \<Longrightarrow> 0 < length (m_textureIDs s) \<Longrightarrow>
   FindTextureSlot (registered tid t s) u = (if u = t then 0 else - 1)"
proof (cases "u = t")
  case True
  assume "m_loadedTextures s = 0" "0 < length (m_textureIDs s)"
  then show ?thesis
    using True FindTextureSlot_first[of 0 1 "m_textureIDs (registered tid t s)" t "- 1"]
    by (simp add: FindTextureSlot_def registered_def)
next
  case False
  assume "m_loadedTextures s = 0" "0 < length (m_textureIDs s)"
  then show ?thesis
    using False FindTextureSlot_none[of 1 "m_textureIDs (registered tid t s)" u "- 1"]
    by (simp add: FindTextureSlot_def registered_def)
qed

text \<open>
  C2, as amended. After a successful load of tag \<open>t\<close> as the first registered texture
  and a call to \<open>BindGLTextures\<close>, texture unit 0 is bound to that texture,
  \<open>SetShaderTexture t\<close> resolves to slot 0 and writes the use-texture flag 1 and the
  sampler value 0; for any other tag \<open>u\<close> the lookup yields the sentinel -1, and
  \<open>SetShaderTexture u\<close> writes the flag 1 and the sampler value -1 as it is. There is
  no error path.
\<close>

theorem SetShaderTexture_after_first_load:
  "m_loadedTextures s = 0 \<and> m_pShaderManager s = Some sm \<and>
   CreateGLTexture stbi_load f t (g, s) = Inr (True, g1, s1) \<and>
   BindGLTextures (g1, s1) = (g2, s2) \<longrightarrow>
     gl_bound g2 0 = ID (m_textureIDs s2 ! 0) \<and>
     FindTextureSlot s2 t = 0 \<and>
     m_pShaderManager (SetShaderTexture t s2) =
       Some (sm @ [IntValue ''bUseTexture'' 1, Sampler2DValue ''objectTexture'' 0]) \<and>
     (u \<noteq> t \<longrightarrow>
        FindTextureSlot s2 u = - 1 \<and>
        m_pShaderManager (SetShaderTexture u s2) =
          Some (sm @ [IntValue ''bUseTexture'' 1, Sampler2DValue ''objectTexture'' (- 1)]))"
proof
  assume a: "m_loadedTextures s = 0 \<and> m_pShaderManager s = Some sm \<and>
   CreateGLTexture stbi_load f t (g, s) = Inr (True, g1, s1) \<and>
   BindGLTextures (g1, s1) = (g2, s2)"
  then have n0: "m_loadedTextures s = 0" and sm: "m_pShaderManager s = Some sm"
    and c: "CreateGLTexture stbi_load f t (g, s) = Inr (True, g1, s1)"
    and b: "BindGLTextures (g1, s1) = (g2, s2)" by simp_all
  from CreateGLTexture_true[OF c] have lt: "m_loadedTextures s < length (m_textureIDs s)"
    and s1: "s1 = registered (gl_fresh (gl_names g)) t s" by simp_all
  from b have s2: "s2 = s1" and g2: "g2 = BindGLTextures_loop s1 0 g1"
    by (auto simp: BindGLTextures_def)
  have cnt: "m_loadedTextures s1 = 1" by (simp add: s1 registered_simps n0)
  have bound: "gl_bound g2 0 = ID (m_textureIDs s2 ! 0)"
    using BindGLTextures_loop_binds[of 0 s1 g1] by (simp add: g2 s2 cnt)
  have slot: "\<And>v. FindTextureSlot s2 v = (if v = t then 0 else - 1)"
    using FindTextureSlot_registered_first[OF n0] lt n0 by (simp add: s2 s1)
  have sm2: "m_pShaderManager s2 = Some sm" by (simp add: s2 s1 registered_simps sm)
  have push: "\<And>v. m_pShaderManager (SetShaderTexture v s2) =
      Some (sm @ [IntValue ''bUseTexture'' 1, Sampler2DValue ''objectTexture'' (FindTextureSlot s2 v)])"
    by (simp add: SetShaderTexture_def sm2 Let_def setIntValue_def setSampler2DValue_def
        g_UseTextureName_def g_TextureValueName_def)
  show "gl_bound g2 0 = ID (m_textureIDs s2 ! 0) \<and>
     FindTextureSlot s2 t = 0 \<and>
     m_pShaderManager (SetShaderTexture t s2) =
       Some (sm @ [IntValue ''bUseTexture'' 1, Sampler2DValue ''objectTexture'' 0]) \<and>
     (u \<noteq> t \<longrightarrow>
        FindTextureSlot s2 u = - 1 \<and>
        m_pShaderManager (SetShaderTexture u s2) =
          Some (sm @ [IntValue ''bUseTexture'' 1, Sampler2DValue ''objectTexture'' (- 1)]))"
    using bound by (simp add: push slot)
qed

theorem SetShaderTexture_after_first_load_witness:
  "m_loadedTextures empty_scene = 0 \<and> m_pShaderManager empty_scene = Some [] \<and>
   CreateGLTexture image_files ''x.png'' ''steel'' (gl_initial, empty_scene) =
     Inr (True, steel_gl, steel_scene) \<and>
   BindGLTextures (steel_gl, steel_scene) = (steel_bound_gl, steel_scene) \<and>
   ''missing'' \<noteq> ''steel'' \<and>
   FindTextureSlot steel_scene ''steel'' = 0 \<and>
   m_pShaderManager (SetShaderTexture ''steel'' steel_scene) =
     Some [IntValue ''bUseTexture'' 1, Sampler2DValue ''objectTexture'' 0] \<and>
   FindTextureSlot steel_scene ''missing'' = - 1"
proof -
  have h: "m_loadedTextures empty_scene = 0 \<and> m_pShaderManager empty_scene = Some [] \<and>
     CreateGLTexture image_files ''x.png'' ''steel'' (gl_initial, empty_scene) =
       Inr (True, steel_gl, steel_scene) \<and>
     BindGLTextures (steel_gl, steel_scene) = (steel_bound_gl, steel_scene)"
    using load_steel bind_steel by (simp add: empty_scene_def)
  have d: "''missing'' \<noteq> ''steel''" by simp
  show ?thesis
    using SetShaderTexture_after_first_load
      [of empty_scene "[]" image_files "''x.png''" "''steel''" gl_initial steel_gl steel_scene
        steel_bound_gl steel_scene "''missing''"] h d
    by simp
qed

text \<open>
  C2, as stated, fails. After loading "steel" first and binding, \<open>SetShaderTexture\<close>
  on the unregistered tag "missing" returns normally, having written the sampler value
  -1 to the sink.
\<close>

theorem SetShaderTexture_unknown_tag_pushes_sentinel:
  "CreateGLTexture image_files ''x.png'' ''steel'' (gl_initial, empty_scene) =
     Inr (True, steel_gl, steel_scene) \<and>
   BindGLTextures (steel_gl, steel_scene) = (steel_bound_gl, steel_scene) \<and>
   SetShaderTexture ''missing'' steel_scene =
     steel_scene\<lparr>m_pShaderManager :=
       Some [IntValue ''bUseTexture'' 1, Sampler2DValue ''objectTexture'' (- 1)]\<rparr>"
proof -
  have "SetShaderTexture ''missing'' steel_scene =
     steel_scene\<lparr>m_pShaderManager :=
       Some [IntValue ''bUseTexture'' 1, Sampler2DValue ''objectTexture'' (- 1)]\<rparr>"
    by (simp add: SetShaderTexture_def steel_scene_def FindTextureSlot_def FindTextureSlot_none
      blank_entry_def setIntValue_def setSampler2DValue_def g_UseTextureName_def
      g_TextureValueName_def Let_def)
  with load_steel bind_steel show ?thesis by simp
qed

text \<open>
  C4, as stated, fails. With every slot of the array in use, a load of a valid image does
  not return a failure that leaves the registry alone: the source runs on to the store at
  index \<open>m_loadedTextures\<close>, which is past the end of the array.
\<close>

theorem CreateGLTexture_full_registry_out_of_bounds:
  "m_loadedTextures full_scene = length (m_textureIDs full_scene) \<and>
   image_files ''x.png'' = Some rgb_image \<and> colorChannels rgb_image = 3 \<and>
   CreateGLTexture image_files ''x.png'' ''obsidian'' (full_gl, full_scene) = Inl OutOfBounds"
  by (simp add: CreateGLTexture_def image_files_def rgb_image_def full_scene_def
      glGenTextures_def register_texture_def Let_def)

lemma FindTextureID_loop_found: "FindTextureID_loop ts n t r i True = r"
  by (subst FindTextureID_loop.simps) simp

text \<open>
  C3. After \<open>DestroyGLTextures\<close> on the scene holding the one texture "steel", the
  texture name 1 is still allocated and a second name has been generated; the registry
  still counts one entry, "steel" still resolves to slot 0, and \<open>FindTextureID\<close>
  resolves it to the newly generated name 2.
\<close>

theorem DestroyGLTextures_releases_nothing:
  "DestroyGLTextures (steel_bound_gl, steel_scene) = (regenerated_gl, regenerated_scene) \<and>
   gl_names steel_bound_gl = [1] \<and> gl_names regenerated_gl = [1, 2] \<and>
   m_loadedTextures regenerated_scene = 1 \<and>
   FindTextureSlot regenerated_scene ''steel'' = 0 \<and>
   FindTextureID regenerated_scene ''steel'' = 2"
proof -
  have d: "DestroyGLTextures (steel_bound_gl, steel_scene) = (regenerated_gl, regenerated_scene)"
    apply (simp add: DestroyGLTextures_def steel_scene_def)
    apply (subst DestroyGLTextures_loop.simps)
    apply (simp add: glGenTextures_def)
    apply (subst DestroyGLTextures_loop.simps)
    apply (simp add: steel_bound_gl_def regenerated_gl_def regenerated_scene_def gl_fresh_def
        numeral_2_eq_2)
    done
  have s: "FindTextureSlot regenerated_scene ''steel'' = 0"
    using FindTextureSlot_first[of 0 1 "m_textureIDs regenerated_scene" "''steel''" "- 1"]
    by (simp add: FindTextureSlot_def regenerated_scene_def)
  have i: "FindTextureID regenerated_scene ''steel'' = 2"
    apply (simp add: FindTextureID_def regenerated_scene_def)
    apply (subst FindTextureID_loop.simps)
    apply (simp add: FindTextureID_loop_found int_of_GLuint_def)
    done
  from d s i show ?thesis
    by (simp add: steel_bound_gl_def regenerated_gl_def regenerated_scene_def)
qed

subsection \<open>Transform composition\<close>

lemma mat4_mul_vec4_assoc:
  "mat4_mul_vec4 (mat4_mul a b) v = mat4_mul_vec4 a (mat4_mul_vec4 b v)"
proof (cases a; cases b; cases v)
  fix a0 a1 a2 a3 b0 b1 b2 b3 x y z w
  assume a: "a = Mat4 a0 a1 a2 a3" and b: "b = Mat4 b0 b1 b2 b3" and v: "v = Vec4 x y z w"
  show ?thesis
    unfolding a b v
    by (cases a0; cases a1; cases a2; cases a3; cases b0; cases b1; cases b2; cases b3)
      (simp add: algebra_simps)
qed

lemma glm_scale_apply: "mat4_mul_vec4 (glm_scale sc) v = spec_scale sc v"
  by (cases sc; cases v) (simp add: algebra_simps)

lemma glm_translate_apply: "mat4_mul_vec4 (glm_translate p) v = spec_translate p v"
  by (cases p; cases v) (simp add: algebra_simps)

lemma glm_rotate_X_apply: "mat4_mul_vec4 (glm_rotate a (Vec3 1 0 0)) v = spec_rotateX a v"
  by (cases v) (simp add: algebra_simps Let_def)

lemma glm_rotate_Y_apply: "mat4_mul_vec4 (glm_rotate a (Vec3 0 1 0)) v = spec_rotateY a v"
  by (cases v) (simp add: algebra_simps Let_def)

lemma glm_rotate_Z_apply: "mat4_mul_vec4 (glm_rotate a (Vec3 0 0 1)) v = spec_rotateZ a v"
  by (cases v) (simp add: algebra_simps Let_def)

lemma modelView_apply: "mat4_mul_vec4 (modelView sc xr yr zr p) v = spec_compose sc xr yr zr p v"
  by (simp only: modelView_def Let_def mat4_mul_vec4_assoc glm_scale_apply glm_translate_apply
      glm_rotate_X_apply glm_rotate_Y_apply glm_rotate_Z_apply spec_compose_def)



lemma modelView_trivial: "modelView (Vec3 1 1 1) 0 0 0 (Vec3 0 0 0) = mat4_identity"
  by (simp add: modelView_def radians_def Let_def mat4_identity_def)

lemma SetTransformations_push:
  "m_pShaderManager s = Some sm \<Longrightarrow>
   SetTransformations sc xr yr zr p s =
     s\<lparr>m_pShaderManager := Some (sm @ [Mat4Value ''model'' (modelView sc xr yr zr p)])\<rparr>"
  by (simp add: SetTransformations_def setMat4Value_def g_ModelName_def)

lemma mat4_ext:
  assumes "\<forall>v. mat4_mul_vec4 a v = mat4_mul_vec4 b v"
  shows "a = b"
proof (cases a; cases b)
  fix a0 a1 a2 a3 b0 b1 b2 b3
  assume a: "a = Mat4 a0 a1 a2 a3" and b: "b = Mat4 b0 b1 b2 b3"
  have e0: "mat4_mul_vec4 a (Vec4 1 0 0 0) = mat4_mul_vec4 b (Vec4 1 0 0 0)"
    and e1: "mat4_mul_vec4 a (Vec4 0 1 0 0) = mat4_mul_vec4 b (Vec4 0 1 0 0)"
    and e2: "mat4_mul_vec4 a (Vec4 0 0 1 0) = mat4_mul_vec4 b (Vec4 0 0 1 0)"
    and e3: "mat4_mul_vec4 a (Vec4 0 0 0 1) = mat4_mul_vec4 b (Vec4 0 0 0 1)"
    using assms by blast+
  have "a0 = b0"
    using e0 unfolding a b by (cases a0; cases a1; cases a2; cases a3; cases b0; cases b1; cases b2; cases b3) simp
  moreover have "a1 = b1"
    using e1 unfolding a b by (cases a0; cases a1; cases a2; cases a3; cases b0; cases b1; cases b2; cases b3) simp
  moreover have "a2 = b2"
    using e2 unfolding a b by (cases a0; cases a1; cases a2; cases a3; cases b0; cases b1; cases b2; cases b3) simp
  moreover have "a3 = b3"
    using e3 unfolding a b by (cases a0; cases a1; cases a2; cases a3; cases b0; cases b1; cases b2; cases b3) simp
  ultimately show ?thesis by (simp add: a b)
qed


text \<open>
  C6. The matrix built by \<open>SetTransformations\<close> maps every vector as translation after
  rotation about Z after rotation about Y after rotation about X after scale, with the
  angles converted from degrees to radians, and it is the only matrix that does. With
  scale (1,1,1), all rotations 0 and position (0,0,0) it is the identity matrix. When
  the shader manager is present, that matrix is what is written to the uniform "model".
\<close>

theorem SetTransformations_composition_order:
  "mat4_mul_vec4 (modelView sc xr yr zr p) v = spec_compose sc xr yr zr p v \<and>
   ((\<forall>u. mat4_mul_vec4 M u = spec_compose sc xr yr zr p u) \<longrightarrow> M = modelView sc xr yr zr p) \<and>
   modelView (Vec3 1 1 1) 0 0 0 (Vec3 0 0 0) = mat4_identity \<and>
   (m_pShaderManager s = Some sm \<longrightarrow>
      SetTransformations sc xr yr zr p s =
        s\<lparr>m_pShaderManager := Some (sm @ [Mat4Value ''model'' (modelView sc xr yr zr p)])\<rparr>)"
proof (intro conjI impI)
  show "mat4_mul_vec4 (modelView sc xr yr zr p) v = spec_compose sc xr yr zr p v"
    by (rule modelView_apply)
  show "modelView (Vec3 1 1 1) 0 0 0 (Vec3 0 0 0) = mat4_identity"
    by (rule modelView_trivial)
  show "M = modelView sc xr yr zr p" if "\<forall>u. mat4_mul_vec4 M u = spec_compose sc xr yr zr p u"
    using that by (intro mat4_ext) (simp add: modelView_apply)
  show "SetTransformations sc xr yr zr p s =
        s\<lparr>m_pShaderManager := Some (sm @ [Mat4Value ''model'' (modelView sc xr yr zr p)])\<rparr>"
    if "m_pShaderManager s = Some sm"
    using that by (rule SetTransformations_push)
qed

theorem SetTransformations_composition_order_witness:
  "m_pShaderManager metal_scene = Some [] \<and>
   (\<forall>u. mat4_mul_vec4 mat4_identity u =
      spec_compose (Vec3 1 1 1) 0 0 0 (Vec3 0 0 0) u) \<and>
   SetTransformations (Vec3 1 1 1) 0 0 0 (Vec3 0 0 0) metal_scene =
     metal_scene\<lparr>m_pShaderManager := Some [Mat4Value ''model'' mat4_identity]\<rparr> \<and>
   mat4_mul_vec4 mat4_identity (Vec4 2 3 5 1) = Vec4 2 3 5 1"
proof -
  have h: "m_pShaderManager metal_scene = Some []" by (simp add: metal_scene_def)
  have i: "\<forall>u. mat4_mul_vec4 mat4_identity u = spec_compose (Vec3 1 1 1) 0 0 0 (Vec3 0 0 0) u"
  proof
    fix u show "mat4_mul_vec4 mat4_identity u = spec_compose (Vec3 1 1 1) 0 0 0 (Vec3 0 0 0) u"
      by (cases u) (simp add: mat4_identity_def spec_compose_def radians_def)
  qed
  note t = SetTransformations_composition_order
    [of "Vec3 1 1 1" 0 0 0 "Vec3 0 0 0" "Vec4 2 3 5 1" mat4_identity metal_scene "[]"]
  from t i have m: "mat4_identity = modelView (Vec3 1 1 1) 0 0 0 (Vec3 0 0 0)" by blast
  from t h have p: "SetTransformations (Vec3 1 1 1) 0 0 0 (Vec3 0 0 0) metal_scene =
     metal_scene\<lparr>m_pShaderManager := Some ([] @ [Mat4Value ''model''
       (modelView (Vec3 1 1 1) 0 0 0 (Vec3 0 0 0))])\<rparr>" by blast
  have v: "mat4_mul_vec4 mat4_identity (Vec4 2 3 5 1) = Vec4 2 3 5 1"
    by (simp add: mat4_identity_def)
  from h i p v show ?thesis by (simp add: m[symmetric])
qed



lemma fcol_finite: "fcol x y z w = finite4 (Vec4 x y z w)"
  by (simp add: fcol_def)

















subsection \<open>Texture flag\<close>

lemma int_uniform_append:
  "int_uniform n (sm @ ws) = fold (int_write n) ws (int_uniform n sm)"
  by (simp add: int_uniform_def)

lemma SetShaderColor_push:
  "m_pShaderManager s = Some sm \<Longrightarrow>
   SetShaderColor r g b a s =
     s\<lparr>m_pShaderManager := Some (sm @ [IntValue ''bUseTexture'' 0, Vec4Value ''objectColor'' (Vec4 r g b a)])\<rparr>"
  by (simp add: SetShaderColor_def setIntValue_def setVec4Value_def g_UseTextureName_def
      g_ColorValueName_def)

lemma SetShaderTexture_push:
  "m_pShaderManager s = Some sm \<Longrightarrow>
   SetShaderTexture t s =
     s\<lparr>m_pShaderManager := Some (sm @ [IntValue ''bUseTexture'' 1,
        Sampler2DValue ''objectTexture'' (FindTextureSlot s t)])\<rparr>"
  by (simp add: SetShaderTexture_def setIntValue_def setSampler2DValue_def g_UseTextureName_def
      g_TextureValueName_def Let_def)

lemma call_use_texture:
  assumes "m_pShaderManager s = Some sm"
  shows "\<exists>s' sm'. call c s = Inr s' \<and> m_pShaderManager s' = Some sm' \<and>
           use_texture s' = (case call_mode c of None \<Rightarrow> use_texture s | Some b \<Rightarrow> Some (of_bool b))"
proof (cases c)
  case (CallSetTransformations sc xr yr zr p)
  then show ?thesis
    using assms by (simp add: SetTransformations_push use_texture_def int_uniform_append)
next
  case (CallSetShaderColor r g b a)
  then show ?thesis
    using assms by (simp add: SetShaderColor_push use_texture_def int_uniform_append g_UseTextureName_def)
next
  case (CallSetShaderTexture t)
  then show ?thesis
    using assms by (simp add: SetShaderTexture_push use_texture_def int_uniform_append g_UseTextureName_def)
next
  case (CallSetTextureUVScale u v)
  then show ?thesis
    using assms by (simp add: SetTextureUVScale_def setVec2Value_def use_texture_def int_uniform_append)
next
  case (CallSetShaderMaterial m t)
  then show ?thesis
    using assms
    by (simp add: SetShaderMaterial_def FindMaterial_def setVec3Value_def setFloatValue_def
        use_texture_def int_uniform_append split: prod.splits)
next
  case CallSetupSceneLights
  then show ?thesis
    using assms
    by (simp add: SetupSceneLights_def setVec3Value_def setBoolValue_def
        use_texture_def int_uniform_append)
next
  case CallDrawMesh
  then show ?thesis using assms by simp
qed

lemma calls_use_texture:
  "m_pShaderManager s = Some sm \<Longrightarrow>
   \<exists>s' sm'. calls cs s = Inr s' \<and> m_pShaderManager s' = Some sm' \<and>
     use_texture s' = (case last_mode cs of None \<Rightarrow> use_texture s | Some b \<Rightarrow> Some (of_bool b))"
proof (induction cs arbitrary: s sm)
  case Nil
  then show ?case by simp
next
  case (Cons c cs)
  from call_use_texture[OF Cons.prems, of c] obtain s1 sm1 where
    c1: "call c s = Inr s1" and p1: "m_pShaderManager s1 = Some sm1"
    and u1: "use_texture s1 = (case call_mode c of None \<Rightarrow> use_texture s | Some b \<Rightarrow> Some (of_bool b))"
    by blast
  from Cons.IH[OF p1] obtain s' sm' where
    "calls cs s1 = Inr s'" "m_pShaderManager s' = Some sm'"
    "use_texture s' = (case last_mode cs of None \<Rightarrow> use_texture s1 | Some b \<Rightarrow> Some (of_bool b))"
    by blast
  with c1 u1 show ?case by (auto split: option.splits)
qed

text \<open>
  C9. With a shader manager present: \<open>SetShaderColor\<close> writes the use-texture flag 0
  and then the RGBA colour; \<open>SetShaderTexture\<close> writes the flag 1 and then the slot;
  and any sequence of calls (transforms, colours, textures, UV scales, materials, light
  setup, mesh draws) runs without fault and leaves the flag as the
  last \<open>SetShaderColor\<close> or \<open>SetShaderTexture\<close> of the sequence set it, or as
  it was before when the sequence has neither.
\<close>

theorem texture_flag_last_call_wins:
  "m_pShaderManager s = Some sm \<longrightarrow>
     SetShaderColor r g b a s =
       s\<lparr>m_pShaderManager := Some (sm @ [IntValue ''bUseTexture'' 0,
          Vec4Value ''objectColor'' (Vec4 r g b a)])\<rparr> \<and>
     use_texture (SetShaderColor r g b a s) = Some 0 \<and>
     SetShaderTexture t s =
       s\<lparr>m_pShaderManager := Some (sm @ [IntValue ''bUseTexture'' 1,
          Sampler2DValue ''objectTexture'' (FindTextureSlot s t)])\<rparr> \<and>
     use_texture (SetShaderTexture t s) = Some 1 \<and>
     (\<exists>s'. calls cs s = Inr s' \<and>
        use_texture s' = (case last_mode cs of None \<Rightarrow> use_texture s | Some b \<Rightarrow> Some (of_bool b)))"
proof
  assume a: "m_pShaderManager s = Some sm"
  have c: "use_texture (SetShaderColor r g b a s) = Some 0"
    by (simp add: SetShaderColor_push[OF a] use_texture_def int_uniform_append g_UseTextureName_def)
  have t: "use_texture (SetShaderTexture t s) = Some 1"
    by (simp add: SetShaderTexture_push[OF a] use_texture_def int_uniform_append g_UseTextureName_def)
  from calls_use_texture[OF a, of cs] have
    "\<exists>s'. calls cs s = Inr s' \<and>
        use_texture s' = (case last_mode cs of None \<Rightarrow> use_texture s | Some b \<Rightarrow> Some (of_bool b))"
    by blast
  with c t SetShaderColor_push[OF a] SetShaderTexture_push[OF a]
  show "SetShaderColor r g b a s =
       s\<lparr>m_pShaderManager := Some (sm @ [IntValue ''bUseTexture'' 0,
          Vec4Value ''objectColor'' (Vec4 r g b a)])\<rparr> \<and>
     use_texture (SetShaderColor r g b a s) = Some 0 \<and>
     SetShaderTexture t s =
       s\<lparr>m_pShaderManager := Some (sm @ [IntValue ''bUseTexture'' 1,
          Sampler2DValue ''objectTexture'' (FindTextureSlot s t)])\<rparr> \<and>
     use_texture (SetShaderTexture t s) = Some 1 \<and>
     (\<exists>s'. calls cs s = Inr s' \<and>
        use_texture s' = (case last_mode cs of None \<Rightarrow> use_texture s | Some b \<Rightarrow> Some (of_bool b)))"
    by simp
qed

theorem texture_flag_last_call_wins_witness:
  "m_pShaderManager metal_scene = Some [] \<and>
   use_texture (SetShaderColor 0.7 0.7 0.7 1 metal_scene) = Some 0 \<and>
   use_texture (SetShaderTexture ''black'' metal_scene) = Some 1 \<and>
   (\<exists>s'. calls lighter_calls metal_scene = Inr s' \<and> use_texture s' = Some 1)"
proof -
  have h: "m_pShaderManager metal_scene = Some []" by (simp add: metal_scene_def)
  have m: "last_mode lighter_calls = Some True" by (simp add: lighter_calls_def)
  show ?thesis
    using texture_flag_last_call_wins
      [of metal_scene "[]" "0.7" "0.7" "0.7" 1 "''black''" lighter_calls] h m
    by auto
qed

end
